theory Spec2Isabelle
  imports Complex_Main "HOL-Library.Monad_Syntax"
begin

section \<open>JavaScript numbers\<close>

text \<open>
  A JavaScript number is modelled as a real number or one of the three special values
  of IEEE arithmetic. The arithmetic is exact on the finite values (no rounding, no
  overflow, no negative zero); what happens at the special values and at a division by
  zero follows IEEE 754, which is what the claims about NaN and Infinity depend on.
  Where a statement would depend on the finite values being exact, the filter code is
  read a second time, over any arithmetic that rounds and overflows: see the section on
  IEEE arithmetic below.
\<close>

datatype number = Fin real | PosInf | NegInf | NaN

definition inf_of :: "bool \<Rightarrow> number" where
  "inf_of negative = (if negative then NegInf else PosInf)"

fun jneg :: "number \<Rightarrow> number" where
  "jneg (Fin a) = Fin (- a)"
| "jneg PosInf = NegInf"
| "jneg NegInf = PosInf"
| "jneg NaN = NaN"

fun jadd :: "number \<Rightarrow> number \<Rightarrow> number" where
  "jadd (Fin a) (Fin b) = Fin (a + b)"
| "jadd NaN y = NaN"
| "jadd x NaN = NaN"
| "jadd PosInf NegInf = NaN"
| "jadd NegInf PosInf = NaN"
| "jadd PosInf y = PosInf"
| "jadd NegInf y = NegInf"
| "jadd (Fin a) y = y"

fun jmul :: "number \<Rightarrow> number \<Rightarrow> number" where
  "jmul (Fin a) (Fin b) = Fin (a * b)"
| "jmul NaN y = NaN"
| "jmul x NaN = NaN"
| "jmul (Fin a) PosInf = (if a = 0 then NaN else inf_of (a < 0))"
| "jmul (Fin a) NegInf = (if a = 0 then NaN else inf_of (0 < a))"
| "jmul PosInf (Fin b) = (if b = 0 then NaN else inf_of (b < 0))"
| "jmul NegInf (Fin b) = (if b = 0 then NaN else inf_of (0 < b))"
| "jmul PosInf PosInf = PosInf"
| "jmul PosInf NegInf = NegInf"
| "jmul NegInf PosInf = NegInf"
| "jmul NegInf NegInf = PosInf"

fun jdiv :: "number \<Rightarrow> number \<Rightarrow> number" where
  "jdiv (Fin a) (Fin b) =
     (if b = 0 then (if a = 0 then NaN else inf_of (a < 0)) else Fin (a / b))"
| "jdiv NaN y = NaN"
| "jdiv x NaN = NaN"
| "jdiv (Fin a) PosInf = Fin 0"
| "jdiv (Fin a) NegInf = Fin 0"
| "jdiv PosInf (Fin b) = inf_of (b < 0)"
| "jdiv NegInf (Fin b) = inf_of (\<not> b < 0)"
| "jdiv PosInf PosInf = NaN"
| "jdiv PosInf NegInf = NaN"
| "jdiv NegInf PosInf = NaN"
| "jdiv NegInf NegInf = NaN"

instantiation number :: "{plus, minus, uminus, times, inverse}"
begin
definition plus_number :: "number \<Rightarrow> number \<Rightarrow> number" where
  "plus_number x y = jadd x y"
definition minus_number :: "number \<Rightarrow> number \<Rightarrow> number" where
  "minus_number x y = jadd x (jneg y)"
definition uminus_number :: "number \<Rightarrow> number" where
  "uminus_number x = jneg x"
definition times_number :: "number \<Rightarrow> number \<Rightarrow> number" where
  "times_number x y = jmul x y"
definition divide_number :: "number \<Rightarrow> number \<Rightarrow> number" where
  "divide_number x y = jdiv x y"
definition inverse_number :: "number \<Rightarrow> number" where
  "inverse_number x = jdiv (Fin 1) x"
instance ..
end

definition isFinite :: "number \<Rightarrow> bool" where
  "isFinite x = (case x of Fin a \<Rightarrow> True | _ \<Rightarrow> False)"

text \<open>The functions of \<^verbatim>\<open>Math\<close> that the filter code calls.\<close>

definition Math_PI :: number where
  "Math_PI = Fin pi"

fun Math_sin :: "number \<Rightarrow> number" where
  "Math_sin (Fin a) = Fin (sin a)"
| "Math_sin x = NaN"

fun Math_cos :: "number \<Rightarrow> number" where
  "Math_cos (Fin a) = Fin (cos a)"
| "Math_cos x = NaN"

text \<open>\<^verbatim>\<open>Math.pow(10, y)\<close>: the only base the code raises to a power is 10.\<close>

fun Math_pow10 :: "number \<Rightarrow> number" where
  "Math_pow10 (Fin a) = Fin (10 powr a)"
| "Math_pow10 PosInf = PosInf"
| "Math_pow10 NegInf = Fin 0"
| "Math_pow10 NaN = NaN"

fun Math_sqrt :: "number \<Rightarrow> number" where
  "Math_sqrt (Fin a) = (if a < 0 then NaN else Fin (sqrt a))"
| "Math_sqrt PosInf = PosInf"
| "Math_sqrt NegInf = NaN"
| "Math_sqrt NaN = NaN"

fun Math_log10 :: "number \<Rightarrow> number" where
  "Math_log10 (Fin a) = (if a < 0 then NaN else if a = 0 then NegInf else Fin (log 10 a))"
| "Math_log10 PosInf = PosInf"
| "Math_log10 NegInf = NaN"
| "Math_log10 NaN = NaN"

section \<open>Bands and biquad coefficients (peq.ts)\<close>

text \<open>
  Modelled from the spec: the type \<^verbatim>\<open>Band\<close> of main.ts, which is not among the sources.
  The fields are the ones the code reads and writes (\<^verbatim>\<open>index\<close>, \<^verbatim>\<open>freq\<close>, \<^verbatim>\<open>gain\<close>,
  \<^verbatim>\<open>q\<close>, \<^verbatim>\<open>type\<close>, \<^verbatim>\<open>enabled\<close>) and the JSON profile schema lists.
\<close>

record Band =
  index :: int
  freq :: number
  gain :: number
  q :: number
  type :: string
  enabled :: bool

type_synonym EQ = "Band list"

record Coeffs =
  b0 :: number
  b1 :: number
  b2 :: number
  a1 :: number
  a2 :: number

text \<open>The six raw values of the \<^verbatim>\<open>switch\<close>, in the order b0, b1, b2, a0, a1, a2.\<close>

definition rawCoeffs ::
  "string \<Rightarrow> number \<Rightarrow> number \<Rightarrow> number
    \<Rightarrow> number \<times> number \<times> number \<times> number \<times> number \<times> number" where
  "rawCoeffs ty alpha A cosw =
     (if ty = ''PK'' then
        (Fin 1 + alpha * A,
         Fin (- 2) * cosw,
         Fin 1 - alpha * A,
         Fin 1 + alpha / A,
         Fin (- 2) * cosw,
         Fin 1 - alpha / A)
      else if ty = ''LSQ'' then
        (let sa = Fin 2 * Math_sqrt A * alpha in
         (A * ((A + Fin 1) - (A - Fin 1) * cosw + sa),
          Fin 2 * A * ((A - Fin 1) - (A + Fin 1) * cosw),
          A * ((A + Fin 1) - (A - Fin 1) * cosw - sa),
          (A + Fin 1) + (A - Fin 1) * cosw + sa,
          Fin (- 2) * ((A - Fin 1) + (A + Fin 1) * cosw),
          (A + Fin 1) + (A - Fin 1) * cosw - sa))
      else if ty = ''HSQ'' then
        (let sb = Fin 2 * Math_sqrt A * alpha in
         (A * ((A + Fin 1) + (A - Fin 1) * cosw + sb),
          Fin (- 2) * A * ((A - Fin 1) + (A + Fin 1) * cosw),
          A * ((A + Fin 1) + (A - Fin 1) * cosw - sb),
          (A + Fin 1) - (A - Fin 1) * cosw + sb,
          Fin 2 * ((A - Fin 1) - (A + Fin 1) * cosw),
          (A + Fin 1) - (A - Fin 1) * cosw - sb))
      else
        (Fin 1, Fin 0, Fin 0, Fin 1, Fin 0, Fin 0))"

definition calculateBiquad :: "Band \<Rightarrow> number \<Rightarrow> Coeffs" where
  "calculateBiquad band sampleRate =
     (if \<not> enabled band then
        \<lparr>b0 = Fin 1, b1 = Fin 0, b2 = Fin 0, a1 = Fin 0, a2 = Fin 0\<rparr>
      else
        (let w0 = Fin 2 * Math_PI * freq band / sampleRate;
             alpha = Math_sin w0 / (Fin 2 * q band);
             A = Math_pow10 (gain band / Fin 40);
             cosw = Math_cos w0
         in case rawCoeffs (type band) alpha A cosw of
              (rb0, rb1, rb2, ra0, ra1, ra2) \<Rightarrow>
                \<lparr>b0 = rb0 / ra0, b1 = rb1 / ra0, b2 = rb2 / ra0,
                 a1 = ra1 / ra0, a2 = ra2 / ra0\<rparr>))"

text \<open>The body of the \<^verbatim>\<open>forEach\<close> of \<^verbatim>\<open>getMagnitude\<close>: one section added to the total.\<close>

definition addSection ::
  "number \<Rightarrow> number \<Rightarrow> number \<Rightarrow> number \<Rightarrow> number \<Rightarrow> Coeffs \<Rightarrow> number" where
  "addSection cos1 cos2 sin1 sin2 totalDb c =
     (let numRe = b0 c + b1 c * cos1 + b2 c * cos2;
          numIm = - (b1 c * sin1 + b2 c * sin2);
          denRe = Fin 1 + a1 c * cos1 + a2 c * cos2;
          denIm = - (a1 c * sin1 + a2 c * sin2);
          magSq = (numRe * numRe + numIm * numIm) / (denRe * denRe + denIm * denIm)
      in totalDb + Fin 10 * Math_log10 magSq)"

definition getMagnitude :: "number \<Rightarrow> Coeffs list \<Rightarrow> number \<Rightarrow> number" where
  "getMagnitude f coeffsList sampleRate =
     (let w = Fin 2 * Math_PI * f / sampleRate;
          cos1 = Math_cos w;
          cos2 = Math_cos (Fin 2 * w);
          sin1 = Math_sin w;
          sin2 = Math_sin (Fin 2 * w)
      in foldl (addSection cos1 cos2 sin1 sin2) (Fin 0) coeffsList)"

text \<open>The default of the \<^verbatim>\<open>sampleRate\<close> parameter, which every call in the sources takes.\<close>

definition defaultSampleRate :: number where
  "defaultSampleRate = Fin 48000"

text \<open>The divisors of \<^verbatim>\<open>calculateBiquad\<close> for an enabled band, in the order of the divisions:
  the sample rate, \<open>2 * q\<close>, 40, \<open>A\<close> and \<open>a0\<close>.\<close>

definition biquadDivisors :: "Band \<Rightarrow> number \<Rightarrow> number list" where
  "biquadDivisors band sampleRate =
     (let w0 = Fin 2 * Math_PI * freq band / sampleRate;
          alpha = Math_sin w0 / (Fin 2 * q band);
          A = Math_pow10 (gain band / Fin 40);
          cosw = Math_cos w0
      in case rawCoeffs (type band) alpha A cosw of
           (rb0, rb1, rb2, ra0, ra1, ra2) \<Rightarrow> [sampleRate, Fin 2 * q band, Fin 40, A, ra0])"

section \<open>The filter code over any IEEE arithmetic\<close>

text \<open>
  The definitions above compute with exact reals. Double arithmetic rounds, and it
  overflows to an infinity and underflows to zero, so that a result that is finite in the
  exact model need not be finite in the program. Here the same code is read over an
  arithmetic of which only what IEEE 754 and ECMAScript fix for every operand is used:
  the results at zero, at one, at the infinities and at NaN, and that a finite non-zero
  number divided by itself is 1. What an operation returns for any other finite operands
  (a rounded value, or an infinity on overflow) is a parameter, and so are the value of
  \<^verbatim>\<open>Math.PI\<close> and the values of \<^verbatim>\<open>Math.sin\<close>, \<^verbatim>\<open>Math.cos\<close>, \<^verbatim>\<open>Math.pow\<close>, \<^verbatim>\<open>Math.sqrt\<close> and
  \<^verbatim>\<open>Math.log10\<close> elsewhere. The type of numbers has one zero; the sign of a zero shows only
  in the sign of the infinity that a division by it returns, which is a parameter too.
  A statement proved for every such arithmetic holds of double arithmetic.
\<close>

record ieee =
  addF :: "real \<Rightarrow> real \<Rightarrow> number"
  mulF :: "real \<Rightarrow> real \<Rightarrow> number"
  divF :: "real \<Rightarrow> real \<Rightarrow> number"
  zeroDivNeg :: "number \<Rightarrow> bool"
  piF :: real
  sinF :: "real \<Rightarrow> number"
  cosF :: "real \<Rightarrow> number"
  pow10F :: "real \<Rightarrow> number"
  sqrtF :: "real \<Rightarrow> number"
  log10F :: "real \<Rightarrow> number"

text \<open>Addition: \<open>x + 0 = x\<close>; with an infinity or NaN as for the exact numbers.\<close>

fun addN :: "ieee \<Rightarrow> number \<Rightarrow> number \<Rightarrow> number" where
  "addN ar (Fin a) (Fin b) = (if a = 0 then Fin b else if b = 0 then Fin a else addF ar a b)"
| "addN ar x y = jadd x y"

text \<open>Subtraction is the addition of the negated number; negation is exact.\<close>

definition subN :: "ieee \<Rightarrow> number \<Rightarrow> number \<Rightarrow> number" where
  "subN ar x y = addN ar x (jneg y)"

text \<open>Multiplication: \<open>x * 0 = 0\<close> and \<open>x * 1 = x\<close> for finite \<open>x\<close>.\<close>

fun mulN :: "ieee \<Rightarrow> number \<Rightarrow> number \<Rightarrow> number" where
  "mulN ar (Fin a) (Fin b) =
     (if a = 0 \<or> b = 0 then Fin 0
      else if b = 1 then Fin a
      else if a = 1 then Fin b
      else mulF ar a b)"
| "mulN ar x y = jmul x y"

text \<open>
  Division. By zero it returns NaN for zero and NaN, and an infinity for anything else;
  \<open>0 / y = 0\<close>, \<open>x / 1 = x\<close> and \<open>x / x = 1\<close> for finite non-zero \<open>x\<close> and \<open>y\<close>.
\<close>

fun divN :: "ieee \<Rightarrow> number \<Rightarrow> number \<Rightarrow> number" where
  "divN ar (Fin a) (Fin b) =
     (if b = 0 then (if a = 0 then NaN else inf_of (zeroDivNeg ar (Fin a)))
      else if a = 0 then Fin 0
      else if b = 1 then Fin a
      else if a = b then Fin 1
      else divF ar a b)"
| "divN ar PosInf (Fin b) = (if b = 0 then inf_of (zeroDivNeg ar PosInf) else inf_of (b < 0))"
| "divN ar NegInf (Fin b) = (if b = 0 then inf_of (zeroDivNeg ar NegInf) else inf_of (\<not> b < 0))"
| "divN ar x y = jdiv x y"

fun sinN :: "ieee \<Rightarrow> number \<Rightarrow> number" where
  "sinN ar (Fin a) = sinF ar a"
| "sinN ar x = NaN"

fun cosN :: "ieee \<Rightarrow> number \<Rightarrow> number" where
  "cosN ar (Fin a) = cosF ar a"
| "cosN ar x = NaN"

text \<open>\<^verbatim>\<open>Math.pow(10, y)\<close> is 1 for \<open>y = 0\<close>, and \<^verbatim>\<open>Math.log10(1)\<close> is 0.\<close>

fun pow10N :: "ieee \<Rightarrow> number \<Rightarrow> number" where
  "pow10N ar (Fin a) = (if a = 0 then Fin 1 else pow10F ar a)"
| "pow10N ar PosInf = PosInf"
| "pow10N ar NegInf = Fin 0"
| "pow10N ar NaN = NaN"

fun sqrtN :: "ieee \<Rightarrow> number \<Rightarrow> number" where
  "sqrtN ar (Fin a) = (if a < 0 then NaN else sqrtF ar a)"
| "sqrtN ar PosInf = PosInf"
| "sqrtN ar NegInf = NaN"
| "sqrtN ar NaN = NaN"

fun log10N :: "ieee \<Rightarrow> number \<Rightarrow> number" where
  "log10N ar (Fin a) =
     (if a < 0 then NaN else if a = 0 then NegInf else if a = 1 then Fin 0 else log10F ar a)"
| "log10N ar PosInf = PosInf"
| "log10N ar NegInf = NaN"
| "log10N ar NaN = NaN"

text \<open>The exact arithmetic of the first section is one such arithmetic.\<close>

definition exactArith :: ieee where
  "exactArith =
     \<lparr>addF = (\<lambda>a b. Fin (a + b)), mulF = (\<lambda>a b. Fin (a * b)), divF = (\<lambda>a b. Fin (a / b)),
      zeroDivNeg = (\<lambda>x. case x of Fin a \<Rightarrow> a < 0 | NegInf \<Rightarrow> True | _ \<Rightarrow> False),
      piF = pi, sinF = (\<lambda>a. Fin (sin a)), cosF = (\<lambda>a. Fin (cos a)),
      pow10F = (\<lambda>a. Fin (10 powr a)), sqrtF = (\<lambda>a. Fin (sqrt a)),
      log10F = (\<lambda>a. Fin (log 10 a))\<rparr>"

text \<open>The \<^verbatim>\<open>switch\<close> of \<^verbatim>\<open>calculateBiquad\<close>, as \<open>rawCoeffs\<close> above.\<close>

definition rawCoeffsA ::
  "ieee \<Rightarrow> string \<Rightarrow> number \<Rightarrow> number \<Rightarrow> number
    \<Rightarrow> number \<times> number \<times> number \<times> number \<times> number \<times> number" where
  "rawCoeffsA ar ty alpha A cosw =
     (let add = addN ar; sub = subN ar; mul = mulN ar; quot = divN ar in
      if ty = ''PK'' then
        (add (Fin 1) (mul alpha A),
         mul (Fin (- 2)) cosw,
         sub (Fin 1) (mul alpha A),
         add (Fin 1) (quot alpha A),
         mul (Fin (- 2)) cosw,
         sub (Fin 1) (quot alpha A))
      else if ty = ''LSQ'' then
        (let sa = mul (mul (Fin 2) (sqrtN ar A)) alpha in
         (mul A (add (sub (add A (Fin 1)) (mul (sub A (Fin 1)) cosw)) sa),
          mul (mul (Fin 2) A) (sub (sub A (Fin 1)) (mul (add A (Fin 1)) cosw)),
          mul A (sub (sub (add A (Fin 1)) (mul (sub A (Fin 1)) cosw)) sa),
          add (add (add A (Fin 1)) (mul (sub A (Fin 1)) cosw)) sa,
          mul (Fin (- 2)) (add (sub A (Fin 1)) (mul (add A (Fin 1)) cosw)),
          sub (add (add A (Fin 1)) (mul (sub A (Fin 1)) cosw)) sa))
      else if ty = ''HSQ'' then
        (let sb = mul (mul (Fin 2) (sqrtN ar A)) alpha in
         (mul A (add (add (add A (Fin 1)) (mul (sub A (Fin 1)) cosw)) sb),
          mul (mul (Fin (- 2)) A) (add (sub A (Fin 1)) (mul (add A (Fin 1)) cosw)),
          mul A (sub (add (add A (Fin 1)) (mul (sub A (Fin 1)) cosw)) sb),
          add (sub (add A (Fin 1)) (mul (sub A (Fin 1)) cosw)) sb,
          mul (Fin 2) (sub (sub A (Fin 1)) (mul (add A (Fin 1)) cosw)),
          sub (sub (add A (Fin 1)) (mul (sub A (Fin 1)) cosw)) sb))
      else
        (Fin 1, Fin 0, Fin 0, Fin 1, Fin 0, Fin 0))"

text \<open>The divisor of \<open>alpha\<close>: \<open>2 * band.q\<close>.\<close>

definition alphaDivisorA :: "ieee \<Rightarrow> Band \<Rightarrow> number" where
  "alphaDivisorA ar band = mulN ar (Fin 2) (q band)"

text \<open>The six raw values of an enabled band: \<open>w0\<close>, \<open>alpha\<close>, \<open>A\<close> and \<open>cosw\<close>, then the
  \<^verbatim>\<open>switch\<close>.\<close>

definition bandRawA ::
  "ieee \<Rightarrow> Band \<Rightarrow> number
    \<Rightarrow> number \<times> number \<times> number \<times> number \<times> number \<times> number" where
  "bandRawA ar band sampleRate =
     (let w0 = divN ar (mulN ar (mulN ar (Fin 2) (Fin (piF ar))) (freq band)) sampleRate;
          alpha = divN ar (sinN ar w0) (alphaDivisorA ar band);
          A = pow10N ar (divN ar (gain band) (Fin 40));
          cosw = cosN ar w0
      in rawCoeffsA ar (type band) alpha A cosw)"

definition calculateBiquadA :: "ieee \<Rightarrow> Band \<Rightarrow> number \<Rightarrow> Coeffs" where
  "calculateBiquadA ar band sampleRate =
     (if \<not> enabled band then
        \<lparr>b0 = Fin 1, b1 = Fin 0, b2 = Fin 0, a1 = Fin 0, a2 = Fin 0\<rparr>
      else
        (case bandRawA ar band sampleRate of
           (rb0, rb1, rb2, ra0, ra1, ra2) \<Rightarrow>
             \<lparr>b0 = divN ar rb0 ra0, b1 = divN ar rb1 ra0, b2 = divN ar rb2 ra0,
              a1 = divN ar ra1 ra0, a2 = divN ar ra2 ra0\<rparr>))"

text \<open>The value \<open>a0\<close> by which \<^verbatim>\<open>calculateBiquad\<close> divides the other five.\<close>

definition normaliserA :: "ieee \<Rightarrow> Band \<Rightarrow> number \<Rightarrow> number" where
  "normaliserA ar band sampleRate =
     (case bandRawA ar band sampleRate of (rb0, rb1, rb2, ra0, ra1, ra2) \<Rightarrow> ra0)"

text \<open>The divisor of \<^verbatim>\<open>magSq\<close> in \<^verbatim>\<open>getMagnitude\<close>: \<open>denRe * denRe + denIm * denIm\<close>.\<close>

definition sectionDenominatorA ::
  "ieee \<Rightarrow> number \<Rightarrow> number \<Rightarrow> number \<Rightarrow> number \<Rightarrow> Coeffs \<Rightarrow> number" where
  "sectionDenominatorA ar cos1 cos2 sin1 sin2 c =
     (let add = addN ar; mul = mulN ar;
          denRe = add (add (Fin 1) (mul (a1 c) cos1)) (mul (a2 c) cos2);
          denIm = jneg (add (mul (a1 c) sin1) (mul (a2 c) sin2))
      in add (mul denRe denRe) (mul denIm denIm))"

definition addSectionA ::
  "ieee \<Rightarrow> number \<Rightarrow> number \<Rightarrow> number \<Rightarrow> number \<Rightarrow> number \<Rightarrow> Coeffs \<Rightarrow> number" where
  "addSectionA ar cos1 cos2 sin1 sin2 totalDb c =
     (let add = addN ar; mul = mulN ar;
          numRe = add (add (b0 c) (mul (b1 c) cos1)) (mul (b2 c) cos2);
          numIm = jneg (add (mul (b1 c) sin1) (mul (b2 c) sin2));
          magSq = divN ar (add (mul numRe numRe) (mul numIm numIm))
                    (sectionDenominatorA ar cos1 cos2 sin1 sin2 c)
      in add totalDb (mul (Fin 10) (log10N ar magSq)))"

text \<open>The four values that \<^verbatim>\<open>getMagnitude\<close> computes before its loop: \<open>cos1\<close>, \<open>cos2\<close>,
  \<open>sin1\<close> and \<open>sin2\<close>.\<close>

definition phasorsA :: "ieee \<Rightarrow> number \<Rightarrow> number \<Rightarrow> number \<times> number \<times> number \<times> number" where
  "phasorsA ar f sampleRate =
     (let w = divN ar (mulN ar (mulN ar (Fin 2) (Fin (piF ar))) f) sampleRate
      in (cosN ar w, cosN ar (mulN ar (Fin 2) w), sinN ar w, sinN ar (mulN ar (Fin 2) w)))"

definition getMagnitudeA :: "ieee \<Rightarrow> number \<Rightarrow> Coeffs list \<Rightarrow> number \<Rightarrow> number" where
  "getMagnitudeA ar f coeffsList sampleRate =
     (case phasorsA ar f sampleRate of
        (cos1, cos2, sin1, sin2) \<Rightarrow>
          foldl (addSectionA ar cos1 cos2 sin1 sin2) (Fin 0) coeffsList)"

text \<open>The divisor of \<^verbatim>\<open>magSq\<close> for the section \<open>c\<close> at the evaluation frequency \<open>f\<close>.\<close>

definition denominatorAtA :: "ieee \<Rightarrow> number \<Rightarrow> number \<Rightarrow> Coeffs \<Rightarrow> number" where
  "denominatorAtA ar f sampleRate c =
     (case phasorsA ar f sampleRate of
        (cos1, cos2, sin1, sin2) \<Rightarrow> sectionDenominatorA ar cos1 cos2 sin1 sin2 c)"

text \<open>A divisor is usable when it is finite and not zero.\<close>

definition usable :: "number \<Rightarrow> bool" where
  "usable x = (case x of Fin a \<Rightarrow> a \<noteq> 0 | _ \<Rightarrow> False)"

section \<open>Strings, and the two regular expressions of the text format\<close>

text \<open>
  A string is a list of characters, read as code units in the range 0 to 255. The white
  space of \<^verbatim>\<open>trim\<close>, of \<^verbatim>\<open>\s\<close> and of \<^verbatim>\<open>parseFloat\<close> in that range is tab, line feed,
  vertical tab, form feed, carriage return, space and the no-break space.
\<close>

definition isWhiteSpace :: "char \<Rightarrow> bool" where
  "isWhiteSpace c =
     (c \<in> set [CHR 0x09, CHR 0x0A, CHR 0x0B, CHR 0x0C, CHR 0x0D, CHR 0x20, CHR 0xA0])"

definition isDigit :: "char \<Rightarrow> bool" where
  "isDigit c = (c \<in> set ''0123456789'')"

definition isLetter :: "char \<Rightarrow> bool" where
  "isLetter c =
     (c \<in> set ''ABCDEFGHIJKLMNOPQRSTUVWXYZ'' \<or> c \<in> set ''abcdefghijklmnopqrstuvwxyz'')"

definition upperChar :: "char \<Rightarrow> char" where
  "upperChar c =
     (case map_of (zip ''abcdefghijklmnopqrstuvwxyz'' ''ABCDEFGHIJKLMNOPQRSTUVWXYZ'') c of
        Some u \<Rightarrow> u
      | None \<Rightarrow> c)"

text \<open>\<^verbatim>\<open>toUpperCase\<close>, on the ASCII letters (the code applies it to a match of \<^verbatim>\<open>ON|OFF\<close>).\<close>

definition toUpperCase :: "string \<Rightarrow> string" where
  "toUpperCase s = map upperChar s"

definition trim :: "string \<Rightarrow> string" where
  "trim s = rev (dropWhile isWhiteSpace (rev (dropWhile isWhiteSpace s)))"

definition startsWith :: "string \<Rightarrow> string \<Rightarrow> bool" where
  "startsWith s p = (take (length p) s = p)"

fun includesStr :: "string \<Rightarrow> string \<Rightarrow> bool" where
  "includesStr [] p = (p = [])"
| "includesStr (c # cs) p = (startsWith (c # cs) p \<or> includesStr cs p)"

text \<open>\<^verbatim>\<open>content.split(/\r?\n/)\<close>: a carriage return belongs to the separator only before a
  line feed.\<close>

fun consLine :: "char \<Rightarrow> string list \<Rightarrow> string list" where
  "consLine c [] = [[c]]"
| "consLine c (l # ls) = (c # l) # ls"

fun splitLines :: "string \<Rightarrow> string list" where
  "splitLines [] = [[]]"
| "splitLines [c] = (if c = CHR 0x0A then [[], []] else [[c]])"
| "splitLines (c # d # ds) =
     (if c = CHR 0x0A then [] # splitLines (d # ds)
      else if c = CHR 0x0D \<and> d = CHR 0x0A then [] # splitLines ds
      else consLine c (splitLines (d # ds)))"

definition digitVal :: "char \<Rightarrow> nat" where
  "digitVal c =
     (case map_of (zip ''0123456789'' [0, 1, 2, 3, 4, 5, 6, 7, 8, 9]) c of
        Some d \<Rightarrow> d
      | None \<Rightarrow> 0)"

definition digitsVal :: "string \<Rightarrow> nat" where
  "digitsVal ds = foldl (\<lambda>n c. 10 * n + digitVal c) 0 ds"

text \<open>
  \<^verbatim>\<open>parseFloat\<close>: leading white space is skipped, then the longest prefix that is a
  decimal literal (sign, \<^verbatim>\<open>Infinity\<close> or digits with an optional fraction and exponent) is
  read; NaN when there is none.
\<close>

definition exponentPart :: "string \<Rightarrow> int" where
  "exponentPart r =
     (case r of
        [] \<Rightarrow> 0
      | e # r1 \<Rightarrow>
          if e = CHR ''e'' \<or> e = CHR ''E'' then
            (case r1 of
               [] \<Rightarrow> 0
             | s # r2 \<Rightarrow>
                 if s = CHR ''-'' then - int (digitsVal (takeWhile isDigit r2))
                 else if s = CHR ''+'' then int (digitsVal (takeWhile isDigit r2))
                 else int (digitsVal (takeWhile isDigit r1)))
          else 0)"

definition unsignedLiteral :: "string \<Rightarrow> number option" where
  "unsignedLiteral u =
     (if startsWith u ''Infinity'' then Some PosInf
      else
        (let ip = takeWhile isDigit u;
             r1 = dropWhile isDigit u;
             hasDot = startsWith r1 ''.'';
             fp = (if hasDot then takeWhile isDigit (tl r1) else []);
             r2 = (if hasDot then dropWhile isDigit (tl r1) else r1);
             m = real (digitsVal ip) + real (digitsVal fp) / 10 ^ length fp;
             ex = exponentPart r2
         in if ip = [] \<and> fp = [] then None
            else if 0 \<le> ex then Some (Fin (m * 10 ^ nat ex))
            else Some (Fin (m / 10 ^ nat (- ex)))))"

definition parseFloat :: "string \<Rightarrow> number" where
  "parseFloat s =
     (let t = dropWhile isWhiteSpace s;
          negative = startsWith t ''-'';
          u = (if startsWith t ''-'' \<or> startsWith t ''+'' then tl t else t)
      in case unsignedLiteral u of
           None \<Rightarrow> NaN
         | Some m \<Rightarrow> if negative then - m else m)"

text \<open>\<^verbatim>\<open>parseInt(s, 10)\<close>; \<open>None\<close> stands for NaN.\<close>

definition parseInt10 :: "string \<Rightarrow> int option" where
  "parseInt10 s =
     (let t = dropWhile isWhiteSpace s;
          negative = startsWith t ''-'';
          u = (if startsWith t ''-'' \<or> startsWith t ''+'' then tl t else t);
          ds = takeWhile isDigit u
      in if ds = [] then None
         else Some (if negative then - int (digitsVal ds) else int (digitsVal ds)))"

text \<open>
  The pieces of the two regular expressions. Both carry the flag \<^verbatim>\<open>i\<close>, so a literal
  matches in either case; each function returns what is left of the line after its match.
  Every quantifier is greedy and is followed by something its own class cannot begin, so
  the first match the backtracking engine finds is the one read here from left to right.
\<close>

definition lit :: "string \<Rightarrow> string \<Rightarrow> string option" where
  "lit p s =
     (if map upperChar (take (length p) s) = map upperChar p
      then Some (drop (length p) s) else None)"

text \<open>\<^verbatim>\<open>\s+\<close>\<close>

definition spaces1 :: "string \<Rightarrow> string option" where
  "spaces1 s =
     (case s of
        [] \<Rightarrow> None
      | c # r \<Rightarrow> if isWhiteSpace c then Some (dropWhile isWhiteSpace r) else None)"

text \<open>\<^verbatim>\<open>(\d+)\<close>\<close>

definition digits1 :: "string \<Rightarrow> (string \<times> string) option" where
  "digits1 s =
     (if takeWhile isDigit s = [] then None
      else Some (takeWhile isDigit s, dropWhile isDigit s))"

text \<open>\<^verbatim>\<open>([A-Z]+)\<close>\<close>

definition letters1 :: "string \<Rightarrow> (string \<times> string) option" where
  "letters1 s =
     (if takeWhile isLetter s = [] then None
      else Some (takeWhile isLetter s, dropWhile isLetter s))"

text \<open>\<^verbatim>\<open>(ON|OFF)\<close>\<close>

definition onOff :: "string \<Rightarrow> (string \<times> string) option" where
  "onOff s =
     (case lit ''ON'' s of
        Some r \<Rightarrow> Some (take 2 s, r)
      | None \<Rightarrow> (case lit ''OFF'' s of Some r \<Rightarrow> Some (take 3 s, r) | None \<Rightarrow> None))"

text \<open>\<^verbatim>\<open>(\d+(?:\.\d+)?)\<close>, and with \<open>signed\<close> \<^verbatim>\<open>(-?\d+(?:\.\d+)?)\<close>\<close>

definition decimal :: "bool \<Rightarrow> string \<Rightarrow> (string \<times> string) option" where
  "decimal signed s =
     (let sgn = (if signed \<and> startsWith s ''-'' then ''-'' else []);
          s1 = drop (length sgn) s;
          ip = takeWhile isDigit s1;
          r1 = dropWhile isDigit s1;
          fp = (if startsWith r1 ''.'' then takeWhile isDigit (tl r1) else []);
          frac = (if fp = [] then [] else CHR ''.'' # fp)
      in if ip = [] then None
         else Some (sgn @ ip @ frac, drop (length frac) r1))"

text \<open>\<^verbatim>\<open>\s*(?:Hz)?\s+\<close> and \<^verbatim>\<open>\s*(?:dB)?\s+\<close>: with the unit, white space must follow it;
  without it, there must be white space where the unit would stand.\<close>

definition unitGap :: "string \<Rightarrow> string \<Rightarrow> string option" where
  "unitGap unit s =
     (case lit unit (dropWhile isWhiteSpace s) of
        Some r \<Rightarrow> spaces1 r
      | None \<Rightarrow> spaces1 s)"

text \<open>\<^verbatim>\<open>/^Preamp:\s*(-?\d+(\.\d+)?)\s*(?:dB)?/i\<close>: the first group of the match.\<close>

definition preampRegex :: "string \<Rightarrow> string option" where
  "preampRegex s =
     do {
       r \<leftarrow> lit ''Preamp:'' s;
       (g1, r) \<leftarrow> decimal True (dropWhile isWhiteSpace r);
       Some g1
     }"

text \<open>
  \<^verbatim>\<open>/^Filter\s+(\d+):\s+(ON|OFF)\s+([A-Z]+)\s+Fc\s+(\d+(?:\.\d+)?)\s*(?:Hz)?\s+Gain\s+(-?\d+(?:\.\d+)?)\s*(?:dB)?\s+Q\s+(\d+(?:\.\d+)?)/i\<close>:
  the six groups of the match.
\<close>

definition filterRegex ::
  "string \<Rightarrow> (string \<times> string \<times> string \<times> string \<times> string \<times> string) option" where
  "filterRegex s =
     do {
       r \<leftarrow> lit ''Filter'' s;
       r \<leftarrow> spaces1 r;
       (g1, r) \<leftarrow> digits1 r;
       r \<leftarrow> lit '':'' r;
       r \<leftarrow> spaces1 r;
       (g2, r) \<leftarrow> onOff r;
       r \<leftarrow> spaces1 r;
       (g3, r) \<leftarrow> letters1 r;
       r \<leftarrow> spaces1 r;
       r \<leftarrow> lit ''Fc'' r;
       r \<leftarrow> spaces1 r;
       (g4, r) \<leftarrow> decimal False r;
       r \<leftarrow> unitGap ''Hz'' r;
       r \<leftarrow> lit ''Gain'' r;
       r \<leftarrow> spaces1 r;
       (g5, r) \<leftarrow> decimal True r;
       r \<leftarrow> unitGap ''dB'' r;
       r \<leftarrow> lit ''Q'' r;
       r \<leftarrow> spaces1 r;
       (g6, r) \<leftarrow> decimal False r;
       Some (g1, g2, g3, g4, g5, g6)
     }"

section \<open>The state and its mutations (fn.ts)\<close>

datatype HIDDevice = HIDDevice (productName: string) (vendorId: nat)

record State =
  device :: "HIDDevice option"
  globalGainState :: number
  eqState :: EQ

text \<open>What JavaScript throws: the two built-in errors the code can meet, and \<^verbatim>\<open>new Error(message)\<close>.\<close>

datatype error = TypeError | SyntaxError | Error string

text \<open>The raw value of an update: \<^verbatim>\<open>string | number | boolean\<close>.\<close>

datatype prim = PStr string | PNum number | PBool bool

text \<open>
  \<^verbatim>\<open>DEFAULT_FREQS\<close> is a constant of constants.ts, which is not among the sources: the
  table is a parameter of every function that reads it.
\<close>

definition defaultEqState :: "number list \<Rightarrow> EQ" where
  "defaultEqState DEFAULT_FREQS =
     map (\<lambda>(i, f). \<lparr>index = int i, freq = f, gain = Fin 0, q = Fin 0.75,
                     type = ''PK'', enabled = True\<rparr>)
       (List.enumerate 0 DEFAULT_FREQS)"

text \<open>
  \<^verbatim>\<open>eqState[index][key] = value\<close> on one band. A write that the record cannot hold (a key
  that is no field of \<^verbatim>\<open>Band\<close>, or a value of another type than the field's, which the
  signature \<^verbatim>\<open>key: keyof Band\<close> is there to exclude) leaves the record as it is; JavaScript
  would keep the value under that key.
\<close>

definition assignField :: "Band \<Rightarrow> string \<Rightarrow> prim \<Rightarrow> Band" where
  "assignField band key v =
     (case v of
        PNum n \<Rightarrow>
          if key = ''freq'' then band\<lparr>freq := n\<rparr>
          else if key = ''gain'' then band\<lparr>gain := n\<rparr>
          else if key = ''q'' then band\<lparr>q := n\<rparr>
          else if key = ''index'' then
            (case n of Fin r \<Rightarrow> if r \<in> \<int> then band\<lparr>index := \<lfloor>r\<rfloor>\<rparr> else band | _ \<Rightarrow> band)
          else band
      | PStr s \<Rightarrow> if key = ''type'' then band\<lparr>type := s\<rparr> else band
      | PBool b \<Rightarrow> if key = ''enabled'' then band\<lparr>enabled := b\<rparr> else band)"

text \<open>
  \<^verbatim>\<open>setEQ\<close>: \<^verbatim>\<open>eqState[index]\<close> is \<^verbatim>\<open>undefined\<close> when the index is no position of the array,
  and an assignment to a property of \<^verbatim>\<open>undefined\<close> throws a TypeError.
\<close>

definition setEQ :: "EQ \<Rightarrow> int \<Rightarrow> string \<Rightarrow> prim \<Rightarrow> error + EQ" where
  "setEQ eq i key v =
     (if 0 \<le> i \<and> i < int (length eq)
      then Inr (eq[nat i := assignField (eq ! nat i) key v])
      else Inl TypeError)"

text \<open>\<^verbatim>\<open>parseFloat(value as string)\<close>: the argument is first turned into a string, which a
  number survives and which makes \<^verbatim>\<open>true\<close> and \<^verbatim>\<open>false\<close> NaN.\<close>

definition parseFloatPrim :: "prim \<Rightarrow> number" where
  "parseFloatPrim v = (case v of PStr s \<Rightarrow> parseFloat s | PNum n \<Rightarrow> n | PBool b \<Rightarrow> NaN)"

definition Boolean :: "prim \<Rightarrow> bool" where
  "Boolean v = (case v of PStr s \<Rightarrow> s \<noteq> [] | PNum n \<Rightarrow> n \<noteq> Fin 0 \<and> n \<noteq> NaN | PBool b \<Rightarrow> b)"

text \<open>\<^verbatim>\<open>updateState\<close>; \<^verbatim>\<open>renderUI\<close> draws the state and does not change it.\<close>

definition updateState :: "State \<Rightarrow> int \<Rightarrow> string \<Rightarrow> prim \<Rightarrow> error + State" where
  "updateState st i key v =
     (let v' = (if key = ''freq'' \<or> key = ''gain'' \<or> key = ''q'' then PNum (parseFloatPrim v)
                else if key = ''enabled'' then PBool (Boolean v)
                else v)
      in case setEQ (eqState st) i key v' of
           Inl e \<Rightarrow> Inl e
         | Inr eq \<Rightarrow> Inr (st\<lparr>eqState := eq\<rparr>))"

text \<open>\<^verbatim>\<open>resetToDefaults\<close>; \<open>confirmed\<close> is the answer to the \<^verbatim>\<open>confirm\<close> dialogue.
  \<^verbatim>\<open>syncToDevice\<close> (dsp.ts, not among the sources) sends the state that was just set to
  the device.\<close>

definition resetToDefaults :: "number list \<Rightarrow> bool \<Rightarrow> State \<Rightarrow> State" where
  "resetToDefaults DEFAULT_FREQS confirmed st =
     (if \<not> confirmed then st
      else st\<lparr>eqState := defaultEqState DEFAULT_FREQS, globalGainState := Fin 0\<rparr>)"

section \<open>Profiles (importExport.ts)\<close>

record ProfileData =
  globalGain :: number
  bands :: EQ

text \<open>
  The object that \<^verbatim>\<open>JSON.stringify\<close> writes and \<^verbatim>\<open>JSON.parse\<close> returns, with the
  properties the code names; \<open>None\<close> is a property that is not there. The two built-in
  functions themselves are parameters of the functions that call them.
\<close>

record JsonData =
  j_device :: "string option"
  j_timestamp :: "string option"
  j_globalGain :: "number option"
  j_bands :: "EQ option"


text \<open>\<^verbatim>\<open>data.globalGain || 0\<close>: zero and NaN are falsy.\<close>

definition orZero :: "number option \<Rightarrow> number" where
  "orZero g = (case g of None \<Rightarrow> Fin 0 | Some n \<Rightarrow> if n = Fin 0 \<or> n = NaN then Fin 0 else n)"

definition parseJsonProfile :: "(string \<Rightarrow> JsonData option) \<Rightarrow> string \<Rightarrow> error + ProfileData" where
  "parseJsonProfile JSON_parse content =
     (case JSON_parse content of
        None \<Rightarrow> Inl SyntaxError
      | Some data \<Rightarrow>
          (case j_bands data of
             None \<Rightarrow> Inl (Error ''Invalid JSON profile: missing 'bands' property'')
           | Some bs \<Rightarrow> Inr \<lparr>globalGain = orZero (j_globalGain data), bands = bs\<rparr>))"

text \<open>The body of the loop of \<^verbatim>\<open>parseTextProfile\<close>, on one line.\<close>

definition textLine :: "ProfileData \<Rightarrow> string \<Rightarrow> ProfileData" where
  "textLine p line =
     (let trimmed = trim line in
      if trimmed = [] then p
      else
        (case preampRegex trimmed of
           Some g1 \<Rightarrow> p\<lparr>globalGain := parseFloat g1\<rparr>
         | None \<Rightarrow>
             (case filterRegex trimmed of
                None \<Rightarrow> p
              | Some (g1, g2, g3, g4, g5, g6) \<Rightarrow>
                  (case parseInt10 g1 of
                     None \<Rightarrow> p
                   | Some n \<Rightarrow>
                       (let i = n - 1 in
                        if 0 \<le> i \<and> i < int (length (bands p)) then
                          p\<lparr>bands := (bands p)[nat i := (bands p ! nat i)
                               \<lparr>freq := parseFloat g4, gain := parseFloat g5, q := parseFloat g6,
                                type := g3, enabled := (toUpperCase g2 = ''ON'')\<rparr>]\<rparr>
                        else p)))))"

definition parseTextProfile :: "number list \<Rightarrow> string \<Rightarrow> ProfileData" where
  "parseTextProfile DEFAULT_FREQS content =
     foldl textLine \<lparr>globalGain = Fin 0, bands = defaultEqState DEFAULT_FREQS\<rparr>
       (splitLines content)"

text \<open>The format that the heuristic of \<^verbatim>\<open>importProfile\<close> detects, and the profile read.\<close>

definition readProfile ::
  "(string \<Rightarrow> JsonData option) \<Rightarrow> number list \<Rightarrow> string \<Rightarrow> error + ProfileData" where
  "readProfile JSON_parse DEFAULT_FREQS result =
     (if startsWith (trim result) ''{'' then parseJsonProfile JSON_parse result
      else if startsWith (trim result) ''Preamp:'' \<or> includesStr result ''Filter 1:''
      then Inr (parseTextProfile DEFAULT_FREQS result)
      else Inl (Error ''Unknown file format''))"

text \<open>
  \<^verbatim>\<open>importProfile\<close>, from the moment the file is read: the new state, and the error that the
  \<^verbatim>\<open>catch\<close> block logged, if any. After the two assignments the code hands the same gain
  to \<^verbatim>\<open>updateGlobalGain\<close> (helpers.ts, not among the sources) and draws the bands.
\<close>

definition importProfile ::
  "(string \<Rightarrow> JsonData option) \<Rightarrow> number list \<Rightarrow> string \<Rightarrow> State \<Rightarrow> State \<times> error option" where
  "importProfile JSON_parse DEFAULT_FREQS result st =
     (case readProfile JSON_parse DEFAULT_FREQS result of
        Inl e \<Rightarrow> (st, Some e)
      | Inr profile \<Rightarrow>
          (st\<lparr>eqState := bands profile, globalGainState := globalGain profile\<rparr>, None))"






section \<open>Example data\<close>

text \<open>
  Values for the concrete evaluations below. The table of constants.ts is not among the
  sources; \<open>exampleFreqs\<close> is a table of ten frequencies standing in for it, and
  \<open>exampleState\<close> is the state the program starts from with that table.
\<close>

definition exampleFreqs :: "number list" where
  "exampleFreqs = map Fin [32, 64, 125, 250, 500, 1000, 2000, 4000, 8000, 16000]"

definition exampleState :: State where
  "exampleState =
     \<lparr>device = None, globalGainState = Fin 0, eqState = defaultEqState exampleFreqs\<rparr>"

text \<open>A state after some edits, with a device connected: one band, and a gain of -3 dB.\<close>

definition editedState :: State where
  "editedState =
     \<lparr>device = Some (HIDDevice ''DAC'' 0),
      globalGainState = Fin (- 3),
      eqState = [\<lparr>index = 0, freq = Fin 90, gain = Fin 4, q = Fin 2, type = ''LSQ'',
                   enabled = False\<rparr>]\<rparr>"

text \<open>A JSON file without \<^verbatim>\<open>bands\<close>, and one whose array has a single band of index 5,
  each with the object \<^verbatim>\<open>JSON.parse\<close> returns for it.\<close>

definition noBandsText :: string where
  "noBandsText = ''{\"globalGain\": 3}''"

definition noBandsData :: JsonData where
  "noBandsData =
     \<lparr>j_device = None, j_timestamp = None, j_globalGain = Some (Fin 3), j_bands = None\<rparr>"

definition oneBandText :: string where
  "oneBandText =
     ''{\"bands\": [{\"index\": 5, \"freq\": 100, \"gain\": 1, \"q\": 1, \"type\": \"PK\", \"enabled\": true}]}''"

definition oneBandData :: JsonData where
  "oneBandData =
     \<lparr>j_device = None, j_timestamp = None, j_globalGain = None,
      j_bands = Some [\<lparr>index = 5, freq = Fin 100, gain = Fin 1, q = Fin 1, type = ''PK'',
                        enabled = True\<rparr>]\<rparr>"

text \<open>The text profile of the specification's example, and a profile whose only line is
  a filter line for band 2.\<close>

definition specText :: string where
  "specText = ''Preamp: -8.0 dB\<newline>Filter 1: ON PK Fc 34 Hz Gain -2.6 dB Q 0.800''"

definition filter2Text :: string where
  "filter2Text = ''Filter 2: ON PK Fc 100 Hz Gain 1 dB Q 1''"







section \<open>Arithmetic on finite numbers\<close>

lemma fin_plus: "Fin a + Fin b = Fin (a + b)"
  by (simp add: plus_number_def)

lemma fin_minus: "Fin a - Fin b = Fin (a - b)"
  by (simp add: minus_number_def)

lemma fin_uminus: "- Fin a = Fin (- a)"
  by (simp add: uminus_number_def)

lemma fin_times: "Fin a * Fin b = Fin (a * b)"
  by (simp add: times_number_def)

lemma fin_divide: "b \<noteq> 0 \<Longrightarrow> Fin a / Fin b = Fin (a / b)"
  by (simp add: divide_number_def)

lemmas fin_arith = fin_plus fin_minus fin_uminus fin_times fin_divide


section \<open>Flat bands\<close>






section \<open>Evaluating the string functions\<close>

lemmas str_defs =
  parseFloat_def unsignedLiteral_def startsWith_def isWhiteSpace_def isDigit_def
  exponentPart_def digitsVal_def digitVal_def isLetter_def upperChar_def toUpperCase_def
  trim_def lit_def spaces1_def digits1_def letters1_def onOff_def decimal_def unitGap_def
  preampRegex_def filterRegex_def parseInt10_def Let_def

section \<open>The default state, updates and reset\<close>

lemma length_defaultEqState: "length (defaultEqState fs) = length fs"
  by (simp add: defaultEqState_def)

lemma nth_defaultEqState:
  "i < length fs \<Longrightarrow> defaultEqState fs ! i =
     \<lparr>index = int i, freq = fs ! i, gain = Fin 0, q = Fin 0.75, type = ''PK'', enabled = True\<rparr>"
  by (simp add: defaultEqState_def nth_enumerate_eq)

text \<open>
  Claim C1, as the code has it. For a band index outside the current sequence (negative,
  or at least its length) \<^verbatim>\<open>updateState\<close> does not return: \<^verbatim>\<open>setEQ\<close> throws a TypeError
  before anything is written, whatever the key and the raw value. The state stays as it
  was, but the call is not the silent no-op of the claim.
\<close>

theorem updateState_out_of_range_throws:
  "i < 0 \<or> int (length (eqState st)) \<le> i \<Longrightarrow> updateState st i key v = Inl TypeError"
  by (auto simp add: updateState_def setEQ_def Let_def)

theorem updateState_out_of_range_throws_witness:
  "int (length (eqState exampleState)) \<le> 10
   \<and> updateState exampleState 10 ''gain'' (PNum (Fin 3)) = Inl TypeError"
proof -
  have out: "(10::int) < 0 \<or> int (length (eqState exampleState)) \<le> 10"
    by (simp add: exampleState_def exampleFreqs_def length_defaultEqState)
  show ?thesis
    using out updateState_out_of_range_throws [OF out, of "''gain''" "PNum (Fin 3)"]
    by simp
qed

text \<open>
  Claim C9 as stated fails: \<^verbatim>\<open>resetToDefaults\<close> first asks for confirmation, and when the
  answer is no it returns with the state as it was, here a state with no band and a gain
  of 5 dB.
\<close>

theorem reset_declined_counterexample:
  "eqState (resetToDefaults exampleFreqs False
      \<lparr>device = None, globalGainState = Fin 5, eqState = []\<rparr>) \<noteq> defaultEqState exampleFreqs
   \<and> globalGainState (resetToDefaults exampleFreqs False
      \<lparr>device = None, globalGainState = Fin 5, eqState = []\<rparr>) \<noteq> Fin 0"
  by (simp add: resetToDefaults_def defaultEqState_def exampleFreqs_def)

text \<open>
  Claim C9, amended. For every prior state, once the confirmation is given,
  \<^verbatim>\<open>resetToDefaults\<close> replaces the EQ with the canonical default set (one band per entry
  of the frequency table, with that frequency, its position as index, gain 0, q 0.75, type
  \<^verbatim>\<open>"PK"\<close>, enabled) and sets the global gain to 0; the result does not depend on the prior
  bands and gain, and a second confirmed reset leaves it as it is. When the confirmation
  is refused the state is unchanged.
\<close>

theorem reset_confirmed_canonical:
  "eqState (resetToDefaults fs True st) = defaultEqState fs
   \<and> globalGainState (resetToDefaults fs True st) = Fin 0
   \<and> length (defaultEqState fs) = length fs
   \<and> (\<forall>i < length fs. defaultEqState fs ! i =
         \<lparr>index = int i, freq = fs ! i, gain = Fin 0, q = Fin 0.75, type = ''PK'',
          enabled = True\<rparr>)
   \<and> resetToDefaults fs True (resetToDefaults fs True st) = resetToDefaults fs True st
   \<and> resetToDefaults fs False st = st"
  by (simp add: resetToDefaults_def length_defaultEqState nth_defaultEqState)

theorem reset_confirmed_canonical_witness:
  "eqState (resetToDefaults exampleFreqs True editedState) = defaultEqState exampleFreqs
   \<and> globalGainState (resetToDefaults exampleFreqs True editedState) = Fin 0
   \<and> length (defaultEqState exampleFreqs) = 10
   \<and> defaultEqState exampleFreqs ! 3 =
        \<lparr>index = 3, freq = Fin 250, gain = Fin 0, q = Fin 0.75, type = ''PK'', enabled = True\<rparr>"
proof -
  note r = reset_confirmed_canonical [of exampleFreqs editedState]
  have len: "length exampleFreqs = 10" and third: "exampleFreqs ! 3 = Fin 250"
    by (simp_all add: exampleFreqs_def)
  from r have nth: "\<forall>i < length exampleFreqs. defaultEqState exampleFreqs ! i =
         \<lparr>index = int i, freq = exampleFreqs ! i, gain = Fin 0, q = Fin 0.75, type = ''PK'',
          enabled = True\<rparr>"
    by blast
  have "defaultEqState exampleFreqs ! 3 =
        \<lparr>index = 3, freq = Fin 250, gain = Fin 0, q = Fin 0.75, type = ''PK'', enabled = True\<rparr>"
    using nth [rule_format, of 3] len third by simp
  with r len show ?thesis by simp
qed

section \<open>Profiles: JSON\<close>

text \<open>
  Claim C4. When the object parsed from a JSON text has no \<^verbatim>\<open>bands\<close> property,
  \<^verbatim>\<open>parseJsonProfile\<close> throws the error \<open>Invalid JSON profile: missing 'bands' property\<close>
  (the format error of the specification), and \<^verbatim>\<open>importProfile\<close> ends in its
  \<^verbatim>\<open>catch\<close> block with that error and with the state, bands and global gain, as it was.
  A text that \<^verbatim>\<open>JSON.parse\<close> reads as an object starts with a brace after white space,
  which is how \<^verbatim>\<open>importProfile\<close> recognises it.
\<close>

theorem json_without_bands_rejected:
  assumes "JSON_parse content = Some data"
    and "j_bands data = None"
    and "startsWith (trim content) ''{''"
  shows "parseJsonProfile JSON_parse content =
           Inl (Error ''Invalid JSON profile: missing 'bands' property'')
       \<and> importProfile JSON_parse fs content st =
           (st, Some (Error ''Invalid JSON profile: missing 'bands' property''))"
  using assms by (simp add: parseJsonProfile_def importProfile_def readProfile_def)

theorem json_without_bands_rejected_witness:
  "importProfile (Map.empty(noBandsText \<mapsto> noBandsData)) exampleFreqs noBandsText editedState =
     (editedState, Some (Error ''Invalid JSON profile: missing 'bands' property''))"
proof -
  have parsed: "(Map.empty(noBandsText \<mapsto> noBandsData)) noBandsText = Some noBandsData"
    by simp
  have missing: "j_bands noBandsData = None"
    by (simp add: noBandsData_def)
  have brace: "startsWith (trim noBandsText) ''{''"
    by (simp add: noBandsText_def trim_def startsWith_def isWhiteSpace_def)
  note t = json_without_bands_rejected
      [where JSON_parse = "Map.empty(noBandsText \<mapsto> noBandsData)" and content = noBandsText
         and data = noBandsData and fs = exampleFreqs and st = editedState]
  show ?thesis
    using t [OF parsed missing brace] by (rule conjunct2)
qed










section \<open>Profiles: text\<close>

lemma specText_detected:
  "readProfile P fs specText = Inr (parseTextProfile fs specText)"
  by (simp add: readProfile_def specText_def trim_def startsWith_def isWhiteSpace_def)

lemma specText_parsed:
  "0 < length fs \<Longrightarrow> parseTextProfile fs specText =
     \<lparr>globalGain = Fin (- 8),
      bands = (defaultEqState fs)[0 := (defaultEqState fs ! 0)
         \<lparr>freq := Fin 34, gain := Fin (- 2.6), q := Fin 0.8, type := ''PK'',
          enabled := True\<rparr>]\<rparr>"
  by (simp add: parseTextProfile_def specText_def textLine_def str_defs fin_arith
      length_defaultEqState)

text \<open>
  Claim C5. With a table of ten default frequencies, importing the text
  \<open>Preamp: -8.0 dB\<close>, new line, \<open>Filter 1: ON PK Fc 34 Hz Gain -2.6 dB Q 0.800\<close> (the
  constant \<open>specText\<close>) raises no error and leaves a global gain of -8, a band 0 with
  frequency 34, gain -2.6, q 0.8, type \<^verbatim>\<open>"PK"\<close>, enabled (and index 0), and bands 1 to 9
  equal to the default bands, ten bands in all; this from any state, the default one
  included.
\<close>

theorem import_spec_text:
  assumes "length fs = 10"
  shows "snd (importProfile P fs specText st) = None
       \<and> globalGainState (fst (importProfile P fs specText st)) = Fin (- 8)
       \<and> eqState (fst (importProfile P fs specText st)) ! 0 =
           \<lparr>index = 0, freq = Fin 34, gain = Fin (- 2.6), q = Fin 0.8, type = ''PK'',
            enabled = True\<rparr>
       \<and> (\<forall>i \<in> {1 .. 9}.
            eqState (fst (importProfile P fs specText st)) ! i = defaultEqState fs ! i)
       \<and> length (eqState (fst (importProfile P fs specText st))) = 10"
proof -
  have pos: "0 < length fs"
    using assms by simp
  have first: "defaultEqState fs ! 0 =
      \<lparr>index = 0, freq = fs ! 0, gain = Fin 0, q = Fin 0.75, type = ''PK'', enabled = True\<rparr>"
    using nth_defaultEqState [OF pos] by simp
  have result: "importProfile P fs specText st =
      (st\<lparr>eqState := (defaultEqState fs)[0 := (defaultEqState fs ! 0)
             \<lparr>freq := Fin 34, gain := Fin (- 2.6), q := Fin 0.8, type := ''PK'',
              enabled := True\<rparr>],
          globalGainState := Fin (- 8)\<rparr>, None)"
    by (simp add: importProfile_def specText_detected specText_parsed [OF pos])
  show ?thesis
    unfolding result using assms by (simp add: length_defaultEqState first)
qed

theorem import_spec_text_witness:
  "length exampleFreqs = 10
   \<and> globalGainState (fst (importProfile Map.empty exampleFreqs specText exampleState)) = Fin (- 8)
   \<and> eqState (fst (importProfile Map.empty exampleFreqs specText exampleState)) ! 0 =
        \<lparr>index = 0, freq = Fin 34, gain = Fin (- 2.6), q = Fin 0.8, type = ''PK'',
         enabled = True\<rparr>
   \<and> eqState (fst (importProfile Map.empty exampleFreqs specText exampleState)) ! 9 =
        \<lparr>index = 9, freq = Fin 16000, gain = Fin 0, q = Fin 0.75, type = ''PK'',
         enabled = True\<rparr>"
proof -
  have len: "length exampleFreqs = 10"
    by (simp add: exampleFreqs_def)
  note t = import_spec_text [OF len, of Map.empty exampleState]
  have ninth: "defaultEqState exampleFreqs ! 9 =
      \<lparr>index = 9, freq = Fin 16000, gain = Fin 0, q = Fin 0.75, type = ''PK'', enabled = True\<rparr>"
    using nth_defaultEqState [of 9 exampleFreqs] by (simp add: exampleFreqs_def)
  from t have "eqState (fst (importProfile Map.empty exampleFreqs specText exampleState)) ! 9
      = defaultEqState exampleFreqs ! 9"
    by simp
  with t len ninth show ?thesis
    by simp
qed

lemma textLine_ignores:
  "trim line = [] \<or> (preampRegex (trim line) = None \<and> filterRegex (trim line) = None)
   \<Longrightarrow> textLine p line = p"
  by (auto simp add: textLine_def Let_def)

lemma filter2Text_matches:
  "filterRegex (trim filter2Text) = Some (''2'', ''ON'', ''PK'', ''100'', ''1'', ''1'')"
  by (simp add: filter2Text_def str_defs)

lemma filter2Text_unknown:
  "importProfile P fs filter2Text st = (st, Some (Error ''Unknown file format''))"
  by (simp add: importProfile_def readProfile_def filter2Text_def trim_def startsWith_def
      isWhiteSpace_def)

text \<open>
  Claim C6 as stated fails in its last part: the text \<open>filter2Text\<close> is one line that
  matches the filter expression, and \<^verbatim>\<open>importProfile\<close> rejects it with
  \<open>Unknown file format\<close>, because it neither starts with \<open>Preamp:\<close> nor contains
  \<open>Filter 1:\<close>.
\<close>

theorem text_grammar_line_rejected_counterexample:
  "filterRegex (trim filter2Text) = Some (''2'', ''ON'', ''PK'', ''100'', ''1'', ''1'')
   \<and> importProfile Map.empty exampleFreqs filter2Text exampleState =
       (exampleState, Some (Error ''Unknown file format''))"
  by (simp add: filter2Text_matches filter2Text_unknown)

text \<open>
  Claim C6, amended. Reading a text profile never fails on a line: a line that is blank
  or matches neither regular expression leaves the profile being built as it is.
  \<^verbatim>\<open>importProfile\<close> raises its \<open>Unknown file format\<close> error exactly when the trimmed
  content starts neither with a brace nor with \<open>Preamp:\<close> and the content does not contain
  \<open>Filter 1:\<close>; a content that does not start with a brace and starts with \<open>Preamp:\<close> or
  contains \<open>Filter 1:\<close> is accepted as a text profile and imported without error.
\<close>

theorem text_import_detection:
  "(trim line = [] \<or> (preampRegex (trim line) = None \<and> filterRegex (trim line) = None)
      \<longrightarrow> textLine p line = p)
   \<and> (snd (importProfile P fs content st) = Some (Error ''Unknown file format'')
      \<longleftrightarrow> \<not> startsWith (trim content) ''{'' \<and> \<not> startsWith (trim content) ''Preamp:''
          \<and> \<not> includesStr content ''Filter 1:'')
   \<and> (\<not> startsWith (trim content) ''{''
        \<and> (startsWith (trim content) ''Preamp:'' \<or> includesStr content ''Filter 1:'')
      \<longrightarrow> importProfile P fs content st =
            (st\<lparr>eqState := bands (parseTextProfile fs content),
                globalGainState := globalGain (parseTextProfile fs content)\<rparr>, None))"
proof (intro conjI)
  show "trim line = [] \<or> (preampRegex (trim line) = None \<and> filterRegex (trim line) = None)
      \<longrightarrow> textLine p line = p"
    using textLine_ignores by blast
  show "snd (importProfile P fs content st) = Some (Error ''Unknown file format'')
      \<longleftrightarrow> \<not> startsWith (trim content) ''{'' \<and> \<not> startsWith (trim content) ''Preamp:''
          \<and> \<not> includesStr content ''Filter 1:''"
    by (auto simp add: importProfile_def readProfile_def parseJsonProfile_def
        split: option.splits)
  show "\<not> startsWith (trim content) ''{''
        \<and> (startsWith (trim content) ''Preamp:'' \<or> includesStr content ''Filter 1:'')
      \<longrightarrow> importProfile P fs content st =
            (st\<lparr>eqState := bands (parseTextProfile fs content),
                globalGainState := globalGain (parseTextProfile fs content)\<rparr>, None)"
    by (auto simp add: importProfile_def readProfile_def)
qed

theorem text_import_detection_witness:
  "textLine \<lparr>globalGain = Fin 2, bands = defaultEqState exampleFreqs\<rparr> ''# Filter one''
     = \<lparr>globalGain = Fin 2, bands = defaultEqState exampleFreqs\<rparr>
   \<and> snd (importProfile Map.empty exampleFreqs ''hello'' exampleState)
       = Some (Error ''Unknown file format'')
   \<and> importProfile Map.empty exampleFreqs specText exampleState =
       (exampleState\<lparr>eqState := bands (parseTextProfile exampleFreqs specText),
          globalGainState := globalGain (parseTextProfile exampleFreqs specText)\<rparr>, None)"
proof -
  have no_match: "trim ''# Filter one'' = []
      \<or> (preampRegex (trim ''# Filter one'') = None \<and> filterRegex (trim ''# Filter one'') = None)"
    by (simp add: str_defs)
  have unknown: "\<not> startsWith (trim ''hello'') ''{'' \<and> \<not> startsWith (trim ''hello'') ''Preamp:''
      \<and> \<not> includesStr ''hello'' ''Filter 1:''"
    by (simp add: trim_def startsWith_def isWhiteSpace_def)
  have is_text: "\<not> startsWith (trim specText) ''{''
      \<and> (startsWith (trim specText) ''Preamp:'' \<or> includesStr specText ''Filter 1:'')"
    by (simp add: specText_def trim_def startsWith_def isWhiteSpace_def)
  show ?thesis
    using no_match unknown is_text
      text_import_detection [of "''# Filter one''"
        "\<lparr>globalGain = Fin 2, bands = defaultEqState exampleFreqs\<rparr>"
        Map.empty exampleFreqs "''hello''" exampleState]
      text_import_detection [of "''# Filter one''"
        "\<lparr>globalGain = Fin 2, bands = defaultEqState exampleFreqs\<rparr>"
        Map.empty exampleFreqs specText exampleState]
    by blast
qed

section \<open>The shape of an imported sequence\<close>

lemma textLine_length: "length (bands (textLine p line)) = length (bands p)"
  by (auto simp add: textLine_def Let_def split: option.splits prod.splits)

lemma textLine_index: "index (bands (textLine p line) ! i) = index (bands p ! i)"
  by (auto simp add: textLine_def Let_def nth_list_update split: option.splits prod.splits)

lemma foldl_textLine_length: "length (bands (foldl textLine p ls)) = length (bands p)"
  by (induction ls arbitrary: p) (simp_all add: textLine_length)

lemma foldl_textLine_index: "index (bands (foldl textLine p ls) ! i) = index (bands p ! i)"
  by (induction ls arbitrary: p) (simp_all add: textLine_index)

lemma parseTextProfile_shape:
  "length (bands (parseTextProfile fs content)) = length fs \<and>
   (\<forall>i < length fs. index (bands (parseTextProfile fs content) ! i) = int i)"
  by (simp add: parseTextProfile_def foldl_textLine_length foldl_textLine_index
      length_defaultEqState nth_defaultEqState)

text \<open>
  Claim C10 as stated fails for a JSON profile: the array of \<open>oneBandText\<close> has one band,
  of index 5, and after the import the sequence is that array, of length 1 where the
  table has ten entries, with index 5 at position 0.
\<close>

theorem json_import_resizes_counterexample:
  "snd (importProfile (Map.empty(oneBandText \<mapsto> oneBandData)) exampleFreqs oneBandText
          exampleState) = None
   \<and> length (eqState (fst (importProfile (Map.empty(oneBandText \<mapsto> oneBandData))
          exampleFreqs oneBandText exampleState))) \<noteq> length exampleFreqs
   \<and> index (eqState (fst (importProfile (Map.empty(oneBandText \<mapsto> oneBandData))
          exampleFreqs oneBandText exampleState)) ! 0) \<noteq> 0"
proof -
  have brace: "startsWith (trim oneBandText) ''{''"
    by (simp add: oneBandText_def trim_def startsWith_def isWhiteSpace_def)
  have "importProfile (Map.empty(oneBandText \<mapsto> oneBandData)) exampleFreqs oneBandText
      exampleState
    = (exampleState\<lparr>eqState := [\<lparr>index = 5, freq = Fin 100, gain = Fin 1, q = Fin 1,
          type = ''PK'', enabled = True\<rparr>], globalGainState := Fin 0\<rparr>, None)"
    using brace
    by (simp add: importProfile_def readProfile_def parseJsonProfile_def oneBandData_def
        orZero_def)
  then show ?thesis
    by (simp add: exampleFreqs_def)
qed

text \<open>
  Claim C10, amended. After the import of a text profile (a content that does not start
  with a brace, imported without error) the EQ sequence has the length of the
  default-frequency table and every band has its position as index. The import of a JSON
  profile stores the \<^verbatim>\<open>bands\<close> array of the file as it is, so the sequence has the length
  and the indices of that array.
\<close>

theorem import_shape:
  "(\<not> startsWith (trim content) ''{'' \<and> snd (importProfile P fs content st) = None
      \<longrightarrow> length (eqState (fst (importProfile P fs content st))) = length fs
          \<and> (\<forall>i < length fs. index (eqState (fst (importProfile P fs content st)) ! i) = int i))
   \<and> (startsWith (trim content) ''{'' \<and> P content = Some data \<and> j_bands data = Some bs
      \<longrightarrow> eqState (fst (importProfile P fs content st)) = bs)"
proof (intro conjI impI)
  assume a: "\<not> startsWith (trim content) ''{'' \<and> snd (importProfile P fs content st) = None"
  then have "importProfile P fs content st =
      (st\<lparr>eqState := bands (parseTextProfile fs content),
          globalGainState := globalGain (parseTextProfile fs content)\<rparr>, None)"
    by (auto simp add: importProfile_def readProfile_def split: if_splits)
  then show "length (eqState (fst (importProfile P fs content st))) = length fs"
    and "\<forall>i < length fs. index (eqState (fst (importProfile P fs content st)) ! i) = int i"
    using parseTextProfile_shape [of fs content] by simp_all
next
  assume "startsWith (trim content) ''{'' \<and> P content = Some data \<and> j_bands data = Some bs"
  then show "eqState (fst (importProfile P fs content st)) = bs"
    by (simp add: importProfile_def readProfile_def parseJsonProfile_def)
qed

theorem import_shape_witness:
  "length (eqState (fst (importProfile Map.empty exampleFreqs specText editedState))) = 10
   \<and> index (eqState (fst (importProfile Map.empty exampleFreqs specText editedState)) ! 7) = 7
   \<and> eqState (fst (importProfile (Map.empty(oneBandText \<mapsto> oneBandData)) exampleFreqs
        oneBandText exampleState))
      = [\<lparr>index = 5, freq = Fin 100, gain = Fin 1, q = Fin 1, type = ''PK'', enabled = True\<rparr>]"
proof -
  have is_text: "\<not> startsWith (trim specText) ''{''
      \<and> snd (importProfile Map.empty exampleFreqs specText editedState) = None"
    by (simp add: importProfile_def specText_detected)
       (simp add: specText_def trim_def startsWith_def isWhiteSpace_def)
  have len: "length exampleFreqs = 10"
    by (simp add: exampleFreqs_def)
  have json: "startsWith (trim oneBandText) ''{''
      \<and> (Map.empty(oneBandText \<mapsto> oneBandData)) oneBandText = Some oneBandData
      \<and> j_bands oneBandData = Some [\<lparr>index = 5, freq = Fin 100, gain = Fin 1, q = Fin 1,
            type = ''PK'', enabled = True\<rparr>]"
    by (simp add: oneBandData_def) (simp add: oneBandText_def trim_def startsWith_def isWhiteSpace_def)
  note s1 = import_shape [where content = specText and P = Map.empty and fs = exampleFreqs
      and st = editedState, THEN conjunct1, rule_format, OF is_text]
  note s2 = import_shape [where content = oneBandText
      and P = "Map.empty(oneBandText \<mapsto> oneBandData)" and data = oneBandData
      and fs = exampleFreqs and st = exampleState, THEN conjunct2, rule_format, OF json]
  from s1 have seventh:
    "index (eqState (fst (importProfile Map.empty exampleFreqs specText editedState)) ! 7) = int 7"
    using len by simp
  from s1 len seventh s2 show ?thesis
    by simp
qed

section \<open>Any IEEE arithmetic: the fixed values\<close>

lemma addN_zero: "addN ar x (Fin 0) = x"
  by (cases x) simp_all

lemma mulN_one: "mulN ar x (Fin 1) = x"
  by (cases x) (simp_all add: inf_of_def)

lemma divN_one: "divN ar x (Fin 1) = x"
  by (cases x) (simp_all add: inf_of_def)

lemma divN_self: "divN ar x x = (if usable x then Fin 1 else NaN)"
  by (cases x) (simp_all add: usable_def)

lemma jadd_nan: "jadd x NaN = NaN"
  by (cases x) simp_all

lemma addN_nan: "addN ar NaN y = NaN" "addN ar x NaN = NaN"
  by (cases y; simp) (cases x; simp)

lemma mulN_nan: "mulN ar NaN y = NaN" "mulN ar x NaN = NaN"
  by (cases y; simp) (cases x; simp)

lemma divN_nan: "divN ar NaN y = NaN" "divN ar x NaN = NaN"
  by (cases y; simp) (cases x; simp)

text \<open>A number that is not finite stays so through every operation but a division by it.\<close>

lemma jneg_nonfinite: "\<not> isFinite x \<Longrightarrow> \<not> isFinite (jneg x)"
  by (cases x) (simp_all add: isFinite_def)

lemma addN_nonfinite:
  "\<not> isFinite x \<Longrightarrow> \<not> isFinite (addN ar x y)"
  "\<not> isFinite y \<Longrightarrow> \<not> isFinite (addN ar x y)"
  by (cases x; cases y; simp add: isFinite_def)+

lemma subN_nonfinite:
  "\<not> isFinite x \<Longrightarrow> \<not> isFinite (subN ar x y)"
  "\<not> isFinite y \<Longrightarrow> \<not> isFinite (subN ar x y)"
  by (simp_all add: subN_def addN_nonfinite jneg_nonfinite)

lemma mulN_nonfinite:
  "\<not> isFinite x \<Longrightarrow> \<not> isFinite (mulN ar x y)"
  "\<not> isFinite y \<Longrightarrow> \<not> isFinite (mulN ar x y)"
  by (cases x; cases y; simp add: isFinite_def inf_of_def)+

lemma divN_nonfinite: "\<not> isFinite x \<Longrightarrow> \<not> isFinite (divN ar x y)"
  by (cases x; cases y; simp add: isFinite_def inf_of_def)

lemma divN_nonfinite_both: "\<not> isFinite x \<Longrightarrow> \<not> isFinite y \<Longrightarrow> divN ar x y = NaN"
  by (cases x; cases y; simp add: isFinite_def)

lemma divN_by_zero: "\<not> isFinite (divN ar x (Fin 0))"
  by (cases x) (simp_all add: isFinite_def inf_of_def)

section \<open>The exact arithmetic is an instance\<close>

text \<open>Read over the exact arithmetic, the code is the model of the first sections.\<close>

lemma addN_exact: "addN exactArith x y = x + y"
  by (cases x; cases y; simp add: exactArith_def plus_number_def)

lemma subN_exact: "subN exactArith x y = x - y"
  by (simp add: subN_def addN_exact minus_number_def plus_number_def)

lemma mulN_exact: "mulN exactArith x y = x * y"
  by (cases x; cases y; simp add: exactArith_def times_number_def)

lemma divN_exact: "divN exactArith x y = x / y"
  by (cases x; cases y; simp add: exactArith_def divide_number_def)

lemma sinN_exact: "sinN exactArith x = Math_sin x"
  by (cases x) (simp_all add: exactArith_def)

lemma cosN_exact: "cosN exactArith x = Math_cos x"
  by (cases x) (simp_all add: exactArith_def)

lemma pow10N_exact: "pow10N exactArith x = Math_pow10 x"
  by (cases x) (simp_all add: exactArith_def)

lemma sqrtN_exact: "sqrtN exactArith x = Math_sqrt x"
  by (cases x) (simp_all add: exactArith_def)

lemma log10N_exact: "log10N exactArith x = Math_log10 x"
  by (cases x) (simp_all add: exactArith_def)

lemma piF_exact: "Fin (piF exactArith) = Math_PI"
  by (simp add: exactArith_def Math_PI_def)

lemmas exact_ops = addN_exact subN_exact mulN_exact divN_exact sinN_exact cosN_exact
  pow10N_exact sqrtN_exact log10N_exact piF_exact

lemma rawCoeffsA_exact: "rawCoeffsA exactArith ty alpha A cosw = rawCoeffs ty alpha A cosw"
  by (simp add: rawCoeffsA_def rawCoeffs_def Let_def exact_ops)

lemma bandRawA_exact:
  "bandRawA exactArith band sr =
     rawCoeffs (type band) (Math_sin (Fin 2 * Math_PI * freq band / sr) / (Fin 2 * q band))
       (Math_pow10 (gain band / Fin 40)) (Math_cos (Fin 2 * Math_PI * freq band / sr))"
  by (simp add: bandRawA_def alphaDivisorA_def Let_def exact_ops rawCoeffsA_exact)

lemma calculateBiquadA_exact: "calculateBiquadA exactArith band sr = calculateBiquad band sr"
  by (simp add: calculateBiquadA_def calculateBiquad_def Let_def bandRawA_exact divN_exact
      split: prod.splits)

lemma addSectionA_exact:
  "addSectionA exactArith c1 c2 s1 s2 t c = addSection c1 c2 s1 s2 t c"
  by (simp add: addSectionA_def sectionDenominatorA_def addSection_def Let_def exact_ops
      uminus_number_def)

lemma getMagnitudeA_exact: "getMagnitudeA exactArith f cs sr = getMagnitude f cs sr"
proof -
  have "addSectionA exactArith c1 c2 s1 s2 = addSection c1 c2 s1 s2" for c1 c2 s1 s2
    by (intro ext) (rule addSectionA_exact)
  then show ?thesis
    by (simp add: getMagnitudeA_def phasorsA_def getMagnitude_def Let_def exact_ops)
qed

section \<open>A section with NaN\<close>

lemma addSectionA_nan_total: "addSectionA ar c1 c2 s1 s2 NaN c = NaN"
  by (simp add: addSectionA_def Let_def addN_nan)

lemma addSectionA_nan_b0: "b0 c = NaN \<Longrightarrow> addSectionA ar c1 c2 s1 s2 t c = NaN"
  by (simp add: addSectionA_def Let_def addN_nan mulN_nan divN_nan jadd_nan)

lemma foldl_addSectionA_nan: "foldl (addSectionA ar c1 c2 s1 s2) NaN cs = NaN"
  by (induction cs) (simp_all add: addSectionA_nan_total)

lemma getMagnitudeA_nan:
  assumes "b0 c = NaN"
  shows "getMagnitudeA ar f (xs @ c # ys) sr = NaN"
  using assms
  by (simp add: getMagnitudeA_def addSectionA_nan_b0 foldl_addSectionA_nan split: prod.splits)

lemma getMagnitudeA_Nil: "getMagnitudeA ar f [] sr = Fin 0"
  by (simp add: getMagnitudeA_def split: prod.splits)

section \<open>A band with q = 0\<close>

text \<open>The exact model at finite operands, for the two evaluations below.\<close>

lemma raw_PK:
  "A \<noteq> 0 \<Longrightarrow> rawCoeffs ''PK'' (Fin al) (Fin A) (Fin c) =
     (Fin (1 + al * A), Fin (- 2 * c), Fin (1 - al * A),
      Fin (1 + al / A), Fin (- 2 * c), Fin (1 - al / A))"
  by (simp add: rawCoeffs_def fin_arith)

lemma calculateBiquad_guarded:
  assumes fb: "freq band = Fin fr" and qb: "q band = Fin qv" and gb: "gain band = Fin g"
    and qv: "qv \<noteq> 0" and en: "enabled band"
  shows "calculateBiquad band defaultSampleRate =
     (case rawCoeffs (type band) (Fin (sin (2 * pi * fr / 48000) / (2 * qv)))
             (Fin (10 powr (g / 40))) (Fin (cos (2 * pi * fr / 48000))) of
        (rb0, rb1, rb2, ra0, ra1, ra2) \<Rightarrow>
          \<lparr>b0 = rb0 / ra0, b1 = rb1 / ra0, b2 = rb2 / ra0, a1 = ra1 / ra0, a2 = ra2 / ra0\<rparr>)"
  using qv en
  by (simp add: calculateBiquad_def defaultSampleRate_def Math_PI_def fb qb gb fin_arith Let_def)

lemma zero_q_importable:
  "q (bands (parseTextProfile fs ''Filter 1: ON PK Fc 12000 Hz Gain 0 dB Q 0'') ! 0) = Fin 0"
  if "0 < length fs"
  using that
  by (simp add: parseTextProfile_def textLine_def str_defs fin_arith length_defaultEqState)

text \<open>
  Claim C2 as stated fails: \<^verbatim>\<open>calculateBiquad\<close> neither rejects nor clamps anything. A band
  with q = 0 (the filter line \<open>Q 0\<close> of a text profile brings one in) reaches the formulas:
  the divisor \<open>2 * q\<close> of \<open>alpha\<close> is zero, \<open>alpha\<close> is infinite, and NaN enters the
  coefficients and the magnitude.
\<close>

theorem zero_q_unguarded_counterexample:
  "Fin 0 \<in> set (biquadDivisors \<lparr>index = 0, freq = Fin 12000, gain = Fin 0, q = Fin 0,
       type = ''PK'', enabled = True\<rparr> defaultSampleRate)
   \<and> b0 (calculateBiquad \<lparr>index = 0, freq = Fin 12000, gain = Fin 0, q = Fin 0,
       type = ''PK'', enabled = True\<rparr> defaultSampleRate) = NaN
   \<and> getMagnitude (Fin 1000)
        [calculateBiquad \<lparr>index = 0, freq = Fin 12000, gain = Fin 0, q = Fin 0,
           type = ''PK'', enabled = True\<rparr> defaultSampleRate] defaultSampleRate = NaN"
proof -
  have divisor: "Fin 0 \<in> set (biquadDivisors \<lparr>index = 0, freq = Fin 12000, gain = Fin 0,
      q = Fin 0, type = ''PK'', enabled = True\<rparr> defaultSampleRate)"
    by (simp add: biquadDivisors_def rawCoeffs_def defaultSampleRate_def Math_PI_def Let_def
        fin_times)
  have coeffs: "calculateBiquad \<lparr>index = 0, freq = Fin 12000, gain = Fin 0, q = Fin 0,
      type = ''PK'', enabled = True\<rparr> defaultSampleRate =
      \<lparr>b0 = NaN, b1 = Fin 0, b2 = NaN, a1 = Fin 0, a2 = NaN\<rparr>"
    by (simp add: calculateBiquad_def rawCoeffs_def defaultSampleRate_def Math_PI_def Let_def
        plus_number_def minus_number_def times_number_def divide_number_def inf_of_def)
  have magnitude: "getMagnitude (Fin 1000) [\<lparr>b0 = NaN, b1 = Fin 0, b2 = NaN, a1 = Fin 0,
      a2 = NaN\<rparr>] defaultSampleRate = NaN"
    by (simp add: getMagnitude_def addSection_def defaultSampleRate_def Math_PI_def
        plus_number_def times_number_def divide_number_def uminus_number_def)
  show ?thesis
    using divisor magnitude unfolding coeffs by simp
qed

lemma zero_q_alpha:
  assumes "q band = Fin 0"
  shows "alphaDivisorA ar band = Fin 0"
    and "\<not> isFinite (divN ar s (alphaDivisorA ar band))"
  using assms by (simp_all add: alphaDivisorA_def divN_by_zero)

lemma rawCoeffsA_nonfinite:
  assumes "\<not> isFinite alpha" and "ty \<in> {''PK'', ''LSQ'', ''HSQ''}"
  shows "\<not> isFinite (fst (rawCoeffsA ar ty alpha A cosw))"
    and "\<not> isFinite (fst (snd (snd (snd (rawCoeffsA ar ty alpha A cosw)))))"
  using assms
  by (auto simp add: rawCoeffsA_def Let_def addN_nonfinite subN_nonfinite mulN_nonfinite
      divN_nonfinite)

lemma bandRawA_alpha:
  "\<exists>s A cosw. bandRawA ar band sr =
     rawCoeffsA ar (type band) (divN ar s (alphaDivisorA ar band)) A cosw"
  unfolding bandRawA_def Let_def by (intro exI) (rule refl)

lemma zero_q_b0:
  assumes "enabled band" and "type band \<in> {''PK'', ''LSQ'', ''HSQ''}" and "q band = Fin 0"
  shows "b0 (calculateBiquadA ar band sr) = NaN"
proof -
  obtain s A cosw where raw: "bandRawA ar band sr =
      rawCoeffsA ar (type band) (divN ar s (alphaDivisorA ar band)) A cosw"
    using bandRawA_alpha by blast
  have alpha: "\<not> isFinite (divN ar s (alphaDivisorA ar band))"
    using assms(3) by (rule zero_q_alpha(2))
  have "\<not> isFinite (fst (bandRawA ar band sr))"
    and "\<not> isFinite (fst (snd (snd (snd (bandRawA ar band sr)))))"
    unfolding raw using alpha assms(2) by (rule rawCoeffsA_nonfinite)+
  then show ?thesis
    using assms(1)
    by (cases "bandRawA ar band sr") (simp add: calculateBiquadA_def divN_nonfinite_both)
qed

lemma flat_coeffsA:
  assumes "\<not> enabled band \<or> type band \<notin> {''PK'', ''LSQ'', ''HSQ''}"
  shows "calculateBiquadA ar band sr =
     \<lparr>b0 = Fin 1, b1 = Fin 0, b2 = Fin 0, a1 = Fin 0, a2 = Fin 0\<rparr>"
  using assms by (auto simp add: calculateBiquadA_def bandRawA_def rawCoeffsA_def Let_def)

text \<open>
  Claim C2, amended. \<^verbatim>\<open>calculateBiquad\<close> takes \<^verbatim>\<open>band.q\<close> and \<^verbatim>\<open>band.freq\<close> as they are:
  nothing is rejected or clamped before the formulas. In every arithmetic of the kind
  above, double arithmetic among them, an enabled band of type \<^verbatim>\<open>"PK"\<close>, \<^verbatim>\<open>"LSQ"\<close> or
  \<^verbatim>\<open>"HSQ"\<close> with q = 0 reaches the formulas whatever its frequency, its gain and the sample
  rate are: the divisor \<open>2 * q\<close> of \<open>alpha\<close> is zero, the coefficient \<open>b0\<close> is NaN, and the
  magnitude of every cascade that contains the band is NaN at every frequency. The bands
  that are safe by construction are the disabled ones and those of another type: their
  coefficients are the identity filter, whatever q and freq are.
\<close>

theorem zero_q_reaches_formulas:
  "(enabled band \<and> type band \<in> {''PK'', ''LSQ'', ''HSQ''} \<and> q band = Fin 0 \<longrightarrow>
      alphaDivisorA ar band = Fin 0
      \<and> b0 (calculateBiquadA ar band sampleRate) = NaN
      \<and> (\<forall>f xs ys.
            getMagnitudeA ar f (xs @ calculateBiquadA ar band sampleRate # ys) sampleRate = NaN))
   \<and> (\<not> enabled band \<or> type band \<notin> {''PK'', ''LSQ'', ''HSQ''} \<longrightarrow>
      calculateBiquadA ar band sampleRate =
        \<lparr>b0 = Fin 1, b1 = Fin 0, b2 = Fin 0, a1 = Fin 0, a2 = Fin 0\<rparr>)"
proof (intro conjI impI allI)
  assume a: "enabled band \<and> type band \<in> {''PK'', ''LSQ'', ''HSQ''} \<and> q band = Fin 0"
  then show "alphaDivisorA ar band = Fin 0"
    by (simp add: zero_q_alpha(1))
  from a show nan: "b0 (calculateBiquadA ar band sampleRate) = NaN"
    by (simp add: zero_q_b0)
  fix f xs ys
  from nan show "getMagnitudeA ar f (xs @ calculateBiquadA ar band sampleRate # ys) sampleRate = NaN"
    by (rule getMagnitudeA_nan)
next
  assume "\<not> enabled band \<or> type band \<notin> {''PK'', ''LSQ'', ''HSQ''}"
  then show "calculateBiquadA ar band sampleRate =
        \<lparr>b0 = Fin 1, b1 = Fin 0, b2 = Fin 0, a1 = Fin 0, a2 = Fin 0\<rparr>"
    by (rule flat_coeffsA)
qed

theorem zero_q_reaches_formulas_witness:
  "q \<lparr>index = 1, freq = Fin 100, gain = Fin 6, q = Fin 0, type = ''LSQ'', enabled = True\<rparr> = Fin 0
   \<and> alphaDivisorA exactArith
        \<lparr>index = 1, freq = Fin 100, gain = Fin 6, q = Fin 0, type = ''LSQ'', enabled = True\<rparr>
       = Fin 0
   \<and> b0 (calculateBiquadA exactArith
        \<lparr>index = 1, freq = Fin 100, gain = Fin 6, q = Fin 0, type = ''LSQ'', enabled = True\<rparr>
        defaultSampleRate) = NaN
   \<and> getMagnitudeA exactArith (Fin 1000)
        [calculateBiquadA exactArith
           \<lparr>index = 1, freq = Fin 100, gain = Fin 6, q = Fin 0, type = ''LSQ'', enabled = True\<rparr>
           defaultSampleRate] defaultSampleRate = NaN
   \<and> calculateBiquadA exactArith
        \<lparr>index = 2, freq = Fin 0, gain = Fin 6, q = Fin 0, type = ''PK'', enabled = False\<rparr>
        defaultSampleRate
       = \<lparr>b0 = Fin 1, b1 = Fin 0, b2 = Fin 0, a1 = Fin 0, a2 = Fin 0\<rparr>"
proof -
  note on = zero_q_reaches_formulas [where ar = exactArith and sampleRate = defaultSampleRate
      and band = "\<lparr>index = 1, freq = Fin 100, gain = Fin 6, q = Fin 0, type = ''LSQ'',
        enabled = True\<rparr>"]
  note off = zero_q_reaches_formulas [where ar = exactArith and sampleRate = defaultSampleRate
      and band = "\<lparr>index = 2, freq = Fin 0, gain = Fin 6, q = Fin 0, type = ''PK'',
        enabled = False\<rparr>"]
  have hyp: "enabled \<lparr>index = 1, freq = Fin 100, gain = Fin 6, q = Fin 0, type = ''LSQ'',
        enabled = True\<rparr>
      \<and> type \<lparr>index = 1, freq = Fin 100, gain = Fin 6, q = Fin 0, type = ''LSQ'',
        enabled = True\<rparr> \<in> {''PK'', ''LSQ'', ''HSQ''}
      \<and> q \<lparr>index = 1, freq = Fin 100, gain = Fin 6, q = Fin 0, type = ''LSQ'',
        enabled = True\<rparr> = Fin 0"
    by simp
  have flat: "\<not> enabled \<lparr>index = 2, freq = Fin 0, gain = Fin 6, q = Fin 0, type = ''PK'',
        enabled = False\<rparr>
      \<or> type \<lparr>index = 2, freq = Fin 0, gain = Fin 6, q = Fin 0, type = ''PK'',
        enabled = False\<rparr> \<notin> {''PK'', ''LSQ'', ''HSQ''}"
    by simp
  from on hyp have 1: "alphaDivisorA exactArith
        \<lparr>index = 1, freq = Fin 100, gain = Fin 6, q = Fin 0, type = ''LSQ'', enabled = True\<rparr>
       = Fin 0"
    and 2: "b0 (calculateBiquadA exactArith
        \<lparr>index = 1, freq = Fin 100, gain = Fin 6, q = Fin 0, type = ''LSQ'', enabled = True\<rparr>
        defaultSampleRate) = NaN"
    and 3: "\<forall>f xs ys. getMagnitudeA exactArith f
        (xs @ calculateBiquadA exactArith
           \<lparr>index = 1, freq = Fin 100, gain = Fin 6, q = Fin 0, type = ''LSQ'', enabled = True\<rparr>
           defaultSampleRate # ys) defaultSampleRate = NaN"
    by blast+
  from 3 have 4: "getMagnitudeA exactArith (Fin 1000)
        ([] @ calculateBiquadA exactArith
           \<lparr>index = 1, freq = Fin 100, gain = Fin 6, q = Fin 0, type = ''LSQ'', enabled = True\<rparr>
           defaultSampleRate # []) defaultSampleRate = NaN"
    by blast
  from off flat have 5: "calculateBiquadA exactArith
        \<lparr>index = 2, freq = Fin 0, gain = Fin 6, q = Fin 0, type = ''PK'', enabled = False\<rparr>
        defaultSampleRate
       = \<lparr>b0 = Fin 1, b1 = Fin 0, b2 = Fin 0, a1 = Fin 0, a2 = Fin 0\<rparr>"
    by blast
  from 1 2 4 5 show ?thesis
    by simp
qed

section \<open>A peak band without gain\<close>

lemma above_nyquist_importable:
  "bands (parseTextProfile fs ''Filter 1: ON PK Fc 36000 Hz Gain 0 dB Q 0.5'') ! 0 =
     \<lparr>index = 0, freq = Fin 36000, gain = Fin 0, q = Fin 0.5, type = ''PK'', enabled = True\<rparr>"
  if "0 < length fs"
  using that
  by (simp add: parseTextProfile_def textLine_def str_defs fin_arith length_defaultEqState
      nth_defaultEqState)

lemma addSectionA_same_total:
  assumes "b0 c = Fin 1" and "b1 c = a1 c" and "b2 c = a2 c"
  shows "addSectionA ar c1 c2 s1 s2 t c =
     (if usable (sectionDenominatorA ar c1 c2 s1 s2 c) then t else NaN)"
  using assms
  by (simp add: addSectionA_def sectionDenominatorA_def Let_def divN_self addN_nan mulN_nan
      addN_zero jadd_nan)

lemma getMagnitudeA_same:
  assumes "b0 c = Fin 1" and "b1 c = a1 c" and "b2 c = a2 c"
  shows "getMagnitudeA ar f (xs @ c # ys) sr =
     (if usable (denominatorAtA ar f sr c) then getMagnitudeA ar f (xs @ ys) sr else NaN)"
  by (simp add: getMagnitudeA_def denominatorAtA_def addSectionA_same_total [OF assms]
      foldl_addSectionA_nan split: prod.splits)

text \<open>With gain 0, \<open>A\<close> is 1, and the raw numerator and denominator are the same values.\<close>

lemma peak_zero_gain_raw:
  assumes "type band = ''PK''" and "gain band = Fin 0"
  shows "\<exists>r0 r1 r2. bandRawA ar band sr = (r0, r1, r2, r0, r1, r2)"
  using assms by (simp add: bandRawA_def rawCoeffsA_def Let_def mulN_one divN_one)

text \<open>A band at a quarter of the sample rate, and the evaluation at that frequency, in
  exact arithmetic.\<close>

lemma quarter_rate_raw:
  "bandRawA exactArith \<lparr>index = 5, freq = Fin 12000, gain = Fin 0, q = Fin 0.5, type = ''PK'',
      enabled = True\<rparr> defaultSampleRate = (Fin 2, Fin 0, Fin 0, Fin 2, Fin 0, Fin 0)"
  unfolding bandRawA_exact
  by (simp add: rawCoeffs_def defaultSampleRate_def Math_PI_def fin_arith)

lemma quarter_rate_phasors:
  "phasorsA exactArith (Fin 12000) defaultSampleRate = (Fin 0, Fin (- 1), Fin 1, Fin 0)"
  unfolding phasorsA_def Let_def exact_ops
  by (simp add: defaultSampleRate_def Math_PI_def fin_arith)

text \<open>
  Claim C8, amended. In every arithmetic of the kind above, double arithmetic among them,
  take an enabled band of type \<^verbatim>\<open>"PK"\<close> with gain 0, whatever its q and its frequency, the
  sample rate and the evaluation frequency are. The numerator and the denominator of its
  section are computed by the same operations on the same values, so the magnitude that
  \<^verbatim>\<open>getMagnitude\<close> computes from the band's coefficients is exactly 0 dB when the two
  divisors of the computation, \<open>a0 = 1 + alpha\<close> and the squared modulus of the section's
  denominator at the evaluation frequency, are finite and not zero, and NaN otherwise: it
  is never another value. In a cascade the band leaves the total of the other sections as
  it is in the first case, and makes it NaN in the second.
\<close>

theorem peak_zero_gain_zero_or_nan:
  assumes "enabled band" and "type band = ''PK''" and "gain band = Fin 0"
  shows "getMagnitudeA ar f [calculateBiquadA ar band sampleRate] sampleRate =
           (if usable (normaliserA ar band sampleRate)
               \<and> usable (denominatorAtA ar f sampleRate (calculateBiquadA ar band sampleRate))
            then Fin 0 else NaN)
       \<and> getMagnitudeA ar f (xs @ calculateBiquadA ar band sampleRate # ys) sampleRate =
           (if usable (normaliserA ar band sampleRate)
               \<and> usable (denominatorAtA ar f sampleRate (calculateBiquadA ar band sampleRate))
            then getMagnitudeA ar f (xs @ ys) sampleRate else NaN)"
proof -
  obtain r0 r1 r2 where raw: "bandRawA ar band sampleRate = (r0, r1, r2, r0, r1, r2)"
    using peak_zero_gain_raw [OF assms(2,3)] by blast
  have n: "normaliserA ar band sampleRate = r0"
    by (simp add: normaliserA_def raw)
  have c: "calculateBiquadA ar band sampleRate =
      \<lparr>b0 = divN ar r0 r0, b1 = divN ar r1 r0, b2 = divN ar r2 r0,
       a1 = divN ar r1 r0, a2 = divN ar r2 r0\<rparr>"
    using assms(1) by (simp add: calculateBiquadA_def raw)
  have cascade: "getMagnitudeA ar f (us @ calculateBiquadA ar band sampleRate # vs) sampleRate =
           (if usable (normaliserA ar band sampleRate)
               \<and> usable (denominatorAtA ar f sampleRate (calculateBiquadA ar band sampleRate))
            then getMagnitudeA ar f (us @ vs) sampleRate else NaN)" for us vs
  proof (cases "usable r0")
    case True
    then have "b0 (calculateBiquadA ar band sampleRate) = Fin 1"
      by (simp add: c divN_self)
    moreover have "b1 (calculateBiquadA ar band sampleRate) = a1 (calculateBiquadA ar band sampleRate)"
      and "b2 (calculateBiquadA ar band sampleRate) = a2 (calculateBiquadA ar band sampleRate)"
      by (simp_all add: c)
    ultimately show ?thesis
      using True by (simp add: n getMagnitudeA_same)
  next
    case False
    then have "b0 (calculateBiquadA ar band sampleRate) = NaN"
      by (simp add: c divN_self)
    then have "getMagnitudeA ar f (us @ calculateBiquadA ar band sampleRate # vs) sampleRate = NaN"
      by (rule getMagnitudeA_nan)
    then show ?thesis
      using False by (simp add: n)
  qed
  show ?thesis
    using cascade [of "[]" "[]"] cascade [of xs ys] by (simp add: getMagnitudeA_Nil)
qed

theorem peak_zero_gain_zero_or_nan_witness:
  "enabled \<lparr>index = 5, freq = Fin 12000, gain = Fin 0, q = Fin 0.5, type = ''PK'',
      enabled = True\<rparr>
   \<and> usable (normaliserA exactArith \<lparr>index = 5, freq = Fin 12000, gain = Fin 0, q = Fin 0.5,
        type = ''PK'', enabled = True\<rparr> defaultSampleRate)
   \<and> usable (denominatorAtA exactArith (Fin 12000) defaultSampleRate
        (calculateBiquadA exactArith \<lparr>index = 5, freq = Fin 12000, gain = Fin 0, q = Fin 0.5,
           type = ''PK'', enabled = True\<rparr> defaultSampleRate))
   \<and> getMagnitudeA exactArith (Fin 12000)
        [calculateBiquadA exactArith \<lparr>index = 5, freq = Fin 12000, gain = Fin 0, q = Fin 0.5,
           type = ''PK'', enabled = True\<rparr> defaultSampleRate] defaultSampleRate = Fin 0"
proof -
  have n: "usable (normaliserA exactArith \<lparr>index = 5, freq = Fin 12000, gain = Fin 0,
      q = Fin 0.5, type = ''PK'', enabled = True\<rparr> defaultSampleRate)"
    unfolding normaliserA_def quarter_rate_raw by (simp add: usable_def)
  have c: "calculateBiquadA exactArith \<lparr>index = 5, freq = Fin 12000, gain = Fin 0, q = Fin 0.5,
      type = ''PK'', enabled = True\<rparr> defaultSampleRate =
      \<lparr>b0 = Fin 1, b1 = Fin 0, b2 = Fin 0, a1 = Fin 0, a2 = Fin 0\<rparr>"
    unfolding calculateBiquadA_def quarter_rate_raw by (simp add: exact_ops fin_arith)
  have d: "usable (denominatorAtA exactArith (Fin 12000) defaultSampleRate
      (calculateBiquadA exactArith \<lparr>index = 5, freq = Fin 12000, gain = Fin 0, q = Fin 0.5,
         type = ''PK'', enabled = True\<rparr> defaultSampleRate))"
    unfolding c denominatorAtA_def quarter_rate_phasors
    by (simp add: sectionDenominatorA_def usable_def)
  note t = peak_zero_gain_zero_or_nan [where ar = exactArith and f = "Fin 12000"
      and sampleRate = defaultSampleRate and xs = "[]" and ys = "[]"
      and band = "\<lparr>index = 5, freq = Fin 12000, gain = Fin 0, q = Fin 0.5, type = ''PK'',
        enabled = True\<rparr>"]
  have "getMagnitudeA exactArith (Fin 12000)
        [calculateBiquadA exactArith \<lparr>index = 5, freq = Fin 12000, gain = Fin 0, q = Fin 0.5,
           type = ''PK'', enabled = True\<rparr> defaultSampleRate] defaultSampleRate = Fin 0"
    using t n d by simp
  with n d show ?thesis
    by simp
qed

text \<open>
  Claim C8 as stated fails above half the sample rate, where the frequency of a band is
  not clamped (a filter line of a text profile brings such a band in): with freq = 36000
  and q = 0.5, \<open>sin w0 = -1\<close> and \<open>alpha = -1\<close>, so \<open>a0 = 1 + alpha = 0\<close> and
  \<open>b0 = 0 / 0\<close> is NaN; the magnitude is NaN, not 0 dB.
\<close>

theorem peak_above_nyquist_counterexample:
  "b0 (calculateBiquad \<lparr>index = 0, freq = Fin 36000, gain = Fin 0, q = Fin 0.5, type = ''PK'',
         enabled = True\<rparr> defaultSampleRate) = NaN
   \<and> getMagnitude (Fin 1000)
        [calculateBiquad \<lparr>index = 0, freq = Fin 36000, gain = Fin 0, q = Fin 0.5, type = ''PK'',
           enabled = True\<rparr> defaultSampleRate] defaultSampleRate \<noteq> Fin 0"
proof -
  have "2 * pi * 36000 / 48000 = 3 / 2 * pi"
    by simp
  then have sc: "sin (2 * pi * 36000 / 48000) = - 1" "cos (2 * pi * 36000 / 48000) = 0"
    by (simp_all only: sin_3over2_pi cos_3over2_pi)
  have al: "sin (2 * pi * 36000 / 48000) / (2 * 0.5) = - 1"
    by (simp only: sc)
  have A: "(10::real) powr (0 / 40) = 1"
    by simp
  have raw: "rawCoeffs ''PK'' (Fin (- 1)) (Fin 1) (Fin 0) =
      (Fin 0, Fin 0, Fin 2, Fin 0, Fin 0, Fin 2)"
    by (simp add: raw_PK)
  have "calculateBiquad \<lparr>index = 0, freq = Fin 36000, gain = Fin 0, q = Fin 0.5, type = ''PK'',
         enabled = True\<rparr> defaultSampleRate =
     (case rawCoeffs ''PK'' (Fin (sin (2 * pi * 36000 / 48000) / (2 * 0.5)))
             (Fin (10 powr (0 / 40))) (Fin (cos (2 * pi * 36000 / 48000))) of
        (rb0, rb1, rb2, ra0, ra1, ra2) \<Rightarrow>
          \<lparr>b0 = rb0 / ra0, b1 = rb1 / ra0, b2 = rb2 / ra0, a1 = ra1 / ra0, a2 = ra2 / ra0\<rparr>)"
    using calculateBiquad_guarded [of "\<lparr>index = 0, freq = Fin 36000, gain = Fin 0, q = Fin 0.5,
      type = ''PK'', enabled = True\<rparr>" 36000 "0.5" 0]
    by simp
  then have coeffs: "calculateBiquad \<lparr>index = 0, freq = Fin 36000, gain = Fin 0, q = Fin 0.5,
      type = ''PK'', enabled = True\<rparr> defaultSampleRate =
      \<lparr>b0 = NaN, b1 = NaN, b2 = PosInf, a1 = NaN, a2 = PosInf\<rparr>"
    unfolding al A sc(2) raw by (simp add: divide_number_def inf_of_def)
  show ?thesis
    unfolding coeffs
    by (simp add: getMagnitude_def addSection_def defaultSampleRate_def Math_PI_def fin_arith
        plus_number_def times_number_def divide_number_def uminus_number_def)
qed

end
